theory Spec2Isabelle
  imports Main "HOL-Library.Word"
begin

unbundle bit_operations_syntax

section \<open>The platform underneath the driver\<close>

text \<open>
  \<^verbatim>\<open>lxc_driver.c\<close> talks to the kernel and the C library at every step. Each call the
  file makes is a constructor of \<open>syscall\<close>, carrying the arguments the code passes.
  \<open>Clone\<close> names the child entry routine and the flag word; \<open>Saferead\<close> and
  \<open>Safewrite\<close> are the one-byte transfers of the forwarder; \<open>SaveConfig\<close> is the call
  to the definition writer, whose result the code ignores.
\<close>

datatype child_entry = LxcDummyChild | LxcChild

datatype syscall =
    Malloc int
  | Calloc
  | Free
  | Clone child_entry int
  | Waitpid int
  | Kill int int
  | Fork
  | Open string
  | Grantpt int
  | Unlockpt int
  | Ptsname int
  | Tcgetattr int
  | Tcsetattr int
  | Posix_openpt
  | Ptsname_r int
  | Close int
  | Poll "int list"
  | Saferead int
  | Safewrite int string
  | SaveConfig

text \<open>
  What a call hands back: the return value, the value of \<open>errno\<close> (read by the code only
  after a failure), the \<open>revents\<close> words filled in by \<open>poll\<close>, the exit status stored by
  \<open>waitpid\<close> and the bytes produced by \<open>ptsname\<close>, \<open>ptsname_r\<close> or a read.
\<close>

record reply =
  ret :: int
  errno :: int
  revents :: "int list"
  status :: int
  str :: string

text \<open>
  The host is a record: the page size, the real and the effective user id of the calling
  process (\<open>getuid()\<close> reads the real one), and \<open>answer\<close>, which decides the reply to a
  call from the calls made before it. Nothing is assumed about \<open>answer\<close>.
\<close>

record platform =
  getpagesize :: int
  getuid :: int
  geteuid :: int
  answer :: "syscall list \<Rightarrow> syscall \<Rightarrow> reply"

datatype virErrorNumber =
    VIR_ERR_NO_DOMAIN
  | VIR_ERR_INVALID_DOMAIN
  | VIR_ERR_NO_MEMORY
  | VIR_ERR_INTERNAL_ERROR

text \<open>
  The running state of the process as far as the driver can change it: the calls made so
  far, in order, and the errors reported through \<open>lxcError\<close>, in order.
\<close>

record sys =
  trace :: "syscall list"
  errors :: "virErrorNumber list"

definition sys_call :: "platform \<Rightarrow> sys \<Rightarrow> syscall \<Rightarrow> reply \<times> sys" where
  "sys_call p s c = (answer p (trace s) c, s\<lparr>trace := trace s @ [c]\<rparr>)"

definition lxcError :: "sys \<Rightarrow> virErrorNumber \<Rightarrow> sys" where
  "lxcError s e = s\<lparr>errors := errors s @ [e]\<rparr>"

subsection \<open>Constants of the Linux headers\<close>

definition EINTR :: int where "EINTR = 4"
definition ESRCH :: int where "ESRCH = 3"
definition EAGAIN :: int where "EAGAIN = 11"
definition EINVAL :: int where "EINVAL = 22"
definition EPERM :: int where "EPERM = 1"

definition SIGINT :: int where "SIGINT = 2"
definition SIGKILL :: int where "SIGKILL = 9"
definition SIGCHLD :: int where "SIGCHLD = 17"

definition POLLIN :: int where "POLLIN = 1"

definition CLONE_NEWNS :: int where "CLONE_NEWNS = 0x00020000"
definition CLONE_NEWPID :: int where "CLONE_NEWPID = 0x20000000"
definition CLONE_NEWUTS :: int where "CLONE_NEWUTS = 0x04000000"
definition CLONE_NEWUSER :: int where "CLONE_NEWUSER = 0x10000000"
definition CLONE_NEWIPC :: int where "CLONE_NEWIPC = 0x08000000"

definition container_flags :: int where
  "container_flags =
     CLONE_NEWPID OR CLONE_NEWNS OR CLONE_NEWUTS OR CLONE_NEWUSER OR CLONE_NEWIPC OR SIGCHLD"

definition WEXITSTATUS :: "int \<Rightarrow> int" where
  "WEXITSTATUS st = drop_bit 8 (st AND 0xff00)"

section \<open>The data of the driver\<close>

text \<open>
  The structures are declared in \<^verbatim>\<open>lxc_conf.h\<close>; the fields below are the ones
  \<^verbatim>\<open>lxc_driver.c\<close> reads or writes. The list \<open>vms\<close> is the linked list
  \<open>driver->vms\<close> in its order; a pointer to a record of the list is its position.
  The two counters are C \<open>int\<close>s that the file increments and decrements: they are
  32-bit words, read as signed numbers by \<open>sint\<close>, and \<open>+ 1\<close> and \<open>- 1\<close> wrap.
\<close>

text \<open>
  \<open>virDomainState\<close> is the enumeration of the public header. The file assigns
  \<open>VIR_DOMAIN_RUNNING\<close>, \<open>VIR_DOMAIN_SHUTDOWN\<close> (the domain is being shut down) and
  \<open>VIR_DOMAIN_SHUTOFF\<close> (the domain is off).
\<close>

datatype virDomainState =
    VIR_DOMAIN_NOSTATE
  | VIR_DOMAIN_RUNNING
  | VIR_DOMAIN_BLOCKED
  | VIR_DOMAIN_PAUSED
  | VIR_DOMAIN_SHUTDOWN
  | VIR_DOMAIN_SHUTOFF
  | VIR_DOMAIN_CRASHED

record lxc_vm_def =
  id' :: int
  name :: string
  uuid :: string
  tty :: string
  maxMemory :: int

record lxc_vm =
  pid :: int
  state :: virDomainState
  parentTty :: int
  containerTtyFd :: int
  containerTty :: "string option"
  configFile :: string
  def :: lxc_vm_def

record lxc_driver =
  vms :: "lxc_vm list"
  nactivevms :: "32 word"
  ninactivevms :: "32 word"
  configDir :: "string option"

text \<open>The driver as \<open>calloc\<close> leaves it: every field zero.\<close>

definition zero_driver :: lxc_driver where
  "zero_driver = \<lparr>vms = [], nactivevms = 0, ninactivevms = 0, configDir = None\<rparr>"

datatype virDrvOpenStatus =
    VIR_DRV_OPEN_SUCCESS
  | VIR_DRV_OPEN_DECLINED
  | VIR_DRV_OPEN_ERROR

record xmlURI =
  scheme :: "string option"

section \<open>Capability check, probe, open, startup and shutdown\<close>

definition lxcCheckContainerSupport :: "platform \<Rightarrow> sys \<Rightarrow> int \<times> sys" where
  "lxcCheckContainerSupport p s =
     (let (stack, s1) = sys_call p s (Malloc (getpagesize p * 4))
      in if ret stack = 0 then (- 1, s1)
         else
           let (cpid, s2) = sys_call p s1 (Clone LxcDummyChild container_flags);
               (rc, s3) =
                 (if ret cpid < 0 \<and> errno cpid = EINVAL then (- 1, s2)
                  else (0, snd (sys_call p s2 (Waitpid (ret cpid)))));
               s4 = snd (sys_call p s3 Free)
           in (rc, s4))"

text \<open>The probe as compiled on Linux (\<open>__linux__\<close> defined).\<close>

definition lxcProbe :: "platform \<Rightarrow> sys \<Rightarrow> string option \<times> sys" where
  "lxcProbe p s =
     (let (rc, s1) = lxcCheckContainerSupport p s
      in if rc = 0 then (Some ''lxc:///'', s1) else (None, s1))"

text \<open>
  \<open>lxcOpen\<close> reads the global \<open>lxc_driver\<close> (\<open>None\<close> is the null pointer) and the URI
  (\<open>None\<close> is a null \<open>uri\<close>, \<open>scheme = None\<close> a null scheme). It returns the status
  and the connection, whose private data it sets on success.
\<close>

record virConnect =
  privateData :: "lxc_driver option"

definition lxcOpen ::
  "platform \<Rightarrow> lxc_driver option \<Rightarrow> virConnect \<Rightarrow> xmlURI option \<Rightarrow>
   virDrvOpenStatus \<times> virConnect" where
  "lxcOpen p lxc_driver conn uri =
     (if getuid p \<noteq> 0 then (VIR_DRV_OPEN_DECLINED, conn)
      else if lxc_driver = None then (VIR_DRV_OPEN_DECLINED, conn)
      else case uri of
             None \<Rightarrow> (VIR_DRV_OPEN_DECLINED, conn)
           | Some u \<Rightarrow>
               (case scheme u of
                  None \<Rightarrow> (VIR_DRV_OPEN_DECLINED, conn)
                | Some sch \<Rightarrow>
                    if sch \<noteq> ''lxc'' then (VIR_DRV_OPEN_DECLINED, conn)
                    else (VIR_DRV_OPEN_SUCCESS, conn\<lparr>privateData := lxc_driver\<rparr>)))"

definition lxcClose :: "virConnect \<Rightarrow> int \<times> virConnect" where
  "lxcClose conn = (0, conn\<lparr>privateData := None\<rparr>)"

text \<open>
  \<open>lxcShutdown\<close> hands the records to \<open>lxcFreeVMs\<close> (of \<^verbatim>\<open>lxc_conf.c\<close>), frees the
  configuration directory and the driver, and clears the global.
\<close>

definition lxcFreeDriver :: "platform \<Rightarrow> sys \<Rightarrow> sys" where
  "lxcFreeDriver p s = snd (sys_call p (snd (sys_call p s Free)) Free)"

definition lxcShutdown ::
  "platform \<Rightarrow> sys \<Rightarrow> lxc_driver option \<Rightarrow> int \<times> sys \<times> lxc_driver option" where
  "lxcShutdown p s lxc_driver =
     (case lxc_driver of
        None \<Rightarrow> (- 1, s, None)
      | Some d \<Rightarrow> (0, lxcFreeDriver p s, None))"

text \<open>
  \<open>lxcLoadDriverConfig\<close> and \<open>lxcLoadContainerInfo\<close> live in \<^verbatim>\<open>lxc_conf.c\<close>; they are
  parameters here, each taking the driver and returning its status and the driver as it
  leaves it.
\<close>

definition lxcStartup ::
  "(lxc_driver \<Rightarrow> int \<times> lxc_driver) \<Rightarrow> (lxc_driver \<Rightarrow> int \<times> lxc_driver) \<Rightarrow>
   platform \<Rightarrow> sys \<Rightarrow> lxc_driver option \<Rightarrow> int \<times> sys \<times> lxc_driver option" where
  "lxcStartup lxcLoadDriverConfig lxcLoadContainerInfo p s lxc_driver =
     (if getuid p \<noteq> 0 then (- 1, s, lxc_driver)
      else
        let (m, s1) = sys_call p s Calloc
        in if ret m = 0 then (- 1, s1, None)
           else
             let (rc, s2) = lxcCheckContainerSupport p s1
             in if rc \<noteq> 0 then (- 1, s2, Some zero_driver)
                else
                  let (rc1, d1) = lxcLoadDriverConfig zero_driver
                  in if rc1 < 0
                     then (let (r, s3, g) = lxcShutdown p s2 (Some d1) in (- 1, s3, g))
                     else
                       let (rc2, d2) = lxcLoadContainerInfo d1
                       in if rc2 < 0
                          then (let (r, s3, g) = lxcShutdown p s2 (Some d2) in (- 1, s3, g))
                          else (0, s2, Some d2))"

section \<open>The registry\<close>

text \<open>
  \<open>lxcIsActiveVM\<close> is an inline helper of \<^verbatim>\<open>lxc_conf.h\<close>; every function that calls
  it takes it as its first argument.
\<close>

text \<open>
  Modelled from the spec: \<open>lxcFindVMByID\<close> is defined in \<^verbatim>\<open>lxc_conf.c\<close>, which is not
  part of the sources at hand. The spec has lookup by id range over the active records
  only and return the record whose runtime id is the one asked for; the result is the
  position of the first such record in \<open>driver->vms\<close>, \<open>None\<close> for the null pointer.
\<close>

fun lxcFindVMByID_from :: "(lxc_vm \<Rightarrow> bool) \<Rightarrow> lxc_vm list \<Rightarrow> int \<Rightarrow> nat option" where
  "lxcFindVMByID_from lxcIsActiveVM [] i = None"
| "lxcFindVMByID_from lxcIsActiveVM (vm # rest) i =
     (if lxcIsActiveVM vm \<and> id' (def vm) = i then Some 0
      else map_option Suc (lxcFindVMByID_from lxcIsActiveVM rest i))"

definition lxcFindVMByID :: "(lxc_vm \<Rightarrow> bool) \<Rightarrow> lxc_driver \<Rightarrow> int \<Rightarrow> nat option" where
  "lxcFindVMByID lxcIsActiveVM driver i = lxcFindVMByID_from lxcIsActiveVM (vms driver) i"

text \<open>
  \<open>lxcListDomains\<close> walks the list while \<open>numDoms < nids\<close> and stores into the caller's
  array \<open>ids\<close>. A store past the end of the array is outside what C defines; the model
  returns \<open>None\<close> there.
\<close>

fun lxcListDomains_loop ::
  "(lxc_vm \<Rightarrow> bool) \<Rightarrow> lxc_vm list \<Rightarrow> int list \<Rightarrow> int \<Rightarrow> int \<Rightarrow> (int list \<times> int) option" where
  "lxcListDomains_loop lxcIsActiveVM [] ids nids numDoms = Some (ids, numDoms)"
| "lxcListDomains_loop lxcIsActiveVM (vm # rest) ids nids numDoms =
     (if numDoms < nids then
        (if lxcIsActiveVM vm then
           (if 0 \<le> numDoms \<and> nat numDoms < length ids
            then lxcListDomains_loop lxcIsActiveVM rest
                   (ids[nat numDoms := id' (def vm)]) nids (numDoms + 1)
            else None)
         else lxcListDomains_loop lxcIsActiveVM rest ids nids numDoms)
      else Some (ids, numDoms))"

definition lxcListDomains ::
  "(lxc_vm \<Rightarrow> bool) \<Rightarrow> lxc_driver \<Rightarrow> int list \<Rightarrow> int \<Rightarrow> (int list \<times> int) option" where
  "lxcListDomains lxcIsActiveVM driver ids nids =
     lxcListDomains_loop lxcIsActiveVM (vms driver) ids nids 0"

definition lxcNumDomains :: "lxc_driver \<Rightarrow> int" where
  "lxcNumDomains driver = sint (nactivevms driver)"

definition lxcNumDefinedDomains :: "lxc_driver \<Rightarrow> int" where
  "lxcNumDefinedDomains driver = sint (ninactivevms driver)"

text \<open>
  The handle the lookup functions give out: name and uuid of the definition, and
  \<open>dom->id = vm->def->id\<close>.
\<close>

record virDomain =
  dom_name :: string
  dom_uuid :: string
  dom_id :: int

definition virGetDomain :: "lxc_vm \<Rightarrow> virDomain" where
  "virGetDomain vm =
     \<lparr>dom_name = name (def vm), dom_uuid = uuid (def vm), dom_id = id' (def vm)\<rparr>"

text \<open>Writing through a pointer into the list.\<close>

definition set_vm :: "lxc_driver \<Rightarrow> nat \<Rightarrow> lxc_vm \<Rightarrow> lxc_driver" where
  "set_vm driver i vm = driver\<lparr>vms := (vms driver)[i := vm]\<rparr>"

section \<open>Shutdown and destroy\<close>

definition lxcDomainShutdown ::
  "(lxc_vm \<Rightarrow> bool) \<Rightarrow> platform \<Rightarrow> sys \<Rightarrow> lxc_driver \<Rightarrow> virDomain \<Rightarrow>
   int \<times> sys \<times> lxc_driver" where
  "lxcDomainShutdown lxcIsActiveVM p s driver dom' =
     (case lxcFindVMByID lxcIsActiveVM driver (dom_id dom') of
        None \<Rightarrow> (- 1, lxcError s VIR_ERR_INVALID_DOMAIN, driver)
      | Some i \<Rightarrow>
          let vm = vms driver ! i;
              (k, s1) = sys_call p s (Kill (id' (def vm)) SIGINT)
          in if ret k < 0 \<and> errno k \<noteq> ESRCH
             then (- 1, lxcError s1 VIR_ERR_INTERNAL_ERROR, driver)
             else (0, s1, set_vm driver i (vm\<lparr>state := VIR_DOMAIN_SHUTDOWN\<rparr>)))"

text \<open>
  The loop \<open>while (((waitRc = waitpid(pid, &childStatus, 0)) == -1) && errno == EINTR);\<close>
  has no bound: it is a partial function, \<open>None\<close> when the wait is interrupted for ever.
\<close>

partial_function (option) waitpid_retry ::
  "platform \<Rightarrow> sys \<Rightarrow> int \<Rightarrow> (reply \<times> sys) option" where
  "waitpid_retry p s cpid =
     (case sys_call p s (Waitpid cpid) of
        (w, s1) \<Rightarrow>
          if ret w = - 1 \<and> errno w = EINTR then waitpid_retry p s1 cpid
          else Some (w, s1))"

text \<open>The tail of \<open>lxcDomainDestroy\<close> from the label \<open>tty_error_out\<close>.\<close>

definition tty_error_out :: "lxc_driver \<Rightarrow> nat \<Rightarrow> lxc_driver" where
  "tty_error_out driver i =
     (let vm = vms driver ! i;
          vm1 = vm\<lparr>state := VIR_DOMAIN_SHUTOFF, pid := - 1, def := (def vm)\<lparr>id' := - 1\<rparr>\<rparr>;
          driver1 = set_vm driver i vm1
      in driver1\<lparr>nactivevms := nactivevms driver1 - 1,
                 ninactivevms := ninactivevms driver1 + 1\<rparr>)"

text \<open>The part from the label \<open>kill_tty\<close> on.\<close>

definition kill_tty ::
  "platform \<Rightarrow> sys \<Rightarrow> lxc_driver \<Rightarrow> nat \<Rightarrow> (int \<times> sys \<times> lxc_driver) option" where
  "kill_tty p s driver i =
     (let vm = vms driver ! i;
          (k, s1) = sys_call p s (Kill (pid vm) SIGKILL)
      in if ret k < 0 \<and> errno k \<noteq> ESRCH
         then Some (0, lxcError s1 VIR_ERR_INTERNAL_ERROR, tty_error_out driver i)
         else
           (case waitpid_retry p s1 (pid vm) of
              None \<Rightarrow> None
            | Some (w, s2) \<Rightarrow>
                let s3 = (if ret w \<noteq> pid vm then lxcError s2 VIR_ERR_INTERNAL_ERROR else s2)
                in Some (0, s3, tty_error_out driver i)))"

definition lxcDomainDestroy ::
  "(lxc_vm \<Rightarrow> bool) \<Rightarrow> platform \<Rightarrow> sys \<Rightarrow> lxc_driver \<Rightarrow> virDomain \<Rightarrow>
   (int \<times> sys \<times> lxc_driver) option" where
  "lxcDomainDestroy lxcIsActiveVM p s driver dom' =
     (case lxcFindVMByID lxcIsActiveVM driver (dom_id dom') of
        None \<Rightarrow> Some (- 1, lxcError s VIR_ERR_INVALID_DOMAIN, driver)
      | Some i \<Rightarrow>
          let vm = vms driver ! i;
              (k, s1) = sys_call p s (Kill (id' (def vm)) SIGKILL)
          in if ret k < 0 \<and> errno k \<noteq> ESRCH
             then Some (- 1, lxcError s1 VIR_ERR_INTERNAL_ERROR, driver)
             else
               let driver1 = set_vm driver i (vm\<lparr>state := VIR_DOMAIN_SHUTDOWN\<rparr>)
               in (case waitpid_retry p s1 (id' (def vm)) of
                     None \<Rightarrow> None
                   | Some (w, s2) \<Rightarrow>
                       let (rc, s3) =
                             (if ret w \<noteq> id' (def vm)
                              then (- 1, lxcError s2 VIR_ERR_INTERNAL_ERROR)
                              else (WEXITSTATUS (status w), s2))
                       in kill_tty p s3 driver1 i))"

section \<open>Starting a container\<close>

definition lxcStartContainer ::
  "platform \<Rightarrow> sys \<Rightarrow> lxc_driver \<Rightarrow> nat \<Rightarrow> int \<times> sys \<times> lxc_driver" where
  "lxcStartContainer p s driver i =
     (let (stack, s1) = sys_call p s (Malloc (getpagesize p * 4))
      in if ret stack = 0 then (- 1, lxcError s1 VIR_ERR_NO_MEMORY, driver)
         else
           let (c, s2) = sys_call p s1 (Clone LxcChild container_flags);
               vm = vms driver ! i;
               driver1 = set_vm driver i (vm\<lparr>def := (def vm)\<lparr>id' := ret c\<rparr>\<rparr>)
           in if ret c < 0 then (- 1, lxcError s2 VIR_ERR_INTERNAL_ERROR, driver1)
              else (0, snd (sys_call p s2 SaveConfig), driver1))"

definition lxcPutTtyInRawMode :: "platform \<Rightarrow> sys \<Rightarrow> int \<Rightarrow> int \<times> sys" where
  "lxcPutTtyInRawMode p s ttyDev =
     (let (g, s1) = sys_call p s (Tcgetattr ttyDev)
      in if ret g < 0 then (- 1, lxcError s1 VIR_ERR_INTERNAL_ERROR)
         else
           let (t, s2) = sys_call p s1 (Tcsetattr ttyDev)
           in if ret t < 0 then (- 1, lxcError s2 VIR_ERR_INTERNAL_ERROR)
              else (0, s2))"

text \<open>
  The label \<open>setup_complete\<close> of \<open>lxcSetupTtyTunnel\<close>: the descriptor is closed when
  \<open>rc\<close> is not zero and the descriptor is positive. The function returns \<open>rc\<close>, the
  definition (whose \<open>tty\<close> may have been overwritten) and \<open>*ttyDev\<close>.
\<close>

definition setup_complete ::
  "platform \<Rightarrow> sys \<Rightarrow> int \<Rightarrow> lxc_vm_def \<Rightarrow> int \<Rightarrow> int \<times> sys \<times> lxc_vm_def \<times> int" where
  "setup_complete p s rc vmDef ttyDev =
     (rc, (if rc \<noteq> 0 \<and> ttyDev > 0 then snd (sys_call p s (Close ttyDev)) else s),
      vmDef, ttyDev)"

text \<open>
  \<open>rc\<close> starts at \<open>- 1\<close>, takes the results of \<open>grantpt\<close> and \<open>unlockpt\<close>, and is set to
  \<open>0\<close> only on the way through the end; a failure of \<open>ptsname\<close> or of the raw-mode
  switch leaves it at what \<open>unlockpt\<close> returned.
\<close>

definition lxcSetupTtyTunnel ::
  "platform \<Rightarrow> sys \<Rightarrow> lxc_vm_def \<Rightarrow> int \<times> sys \<times> lxc_vm_def \<times> int" where
  "lxcSetupTtyTunnel p s vmDef =
     (if 0 < length (tty vmDef) then
        let (opn, s1) = sys_call p s (Open (tty vmDef));
            ttyDev = ret opn
        in if ttyDev < 0
           then setup_complete p (lxcError s1 VIR_ERR_INTERNAL_ERROR) (- 1) vmDef ttyDev
           else
             let (g, s2) = sys_call p s1 (Grantpt ttyDev)
             in if ret g < 0
                then setup_complete p (lxcError s2 VIR_ERR_INTERNAL_ERROR) (ret g) vmDef ttyDev
                else
                  let (u, s3) = sys_call p s2 (Unlockpt ttyDev)
                  in if ret u < 0
                     then setup_complete p (lxcError s3 VIR_ERR_INTERNAL_ERROR) (ret u)
                            vmDef ttyDev
                     else
                       let (ptsStr, s4) = sys_call p s3 (Ptsname ttyDev)
                       in if ret ptsStr = 0
                          then setup_complete p (lxcError s4 VIR_ERR_INTERNAL_ERROR) (ret u)
                                 vmDef ttyDev
                          else
                            let vmDef1 =
                                  (if str ptsStr \<noteq> tty vmDef
                                   then vmDef\<lparr>tty := str ptsStr\<rparr> else vmDef);
                                (raw, s5) = lxcPutTtyInRawMode p s4 ttyDev
                            in if raw < 0 then setup_complete p s5 (ret u) vmDef1 ttyDev
                               else setup_complete p s5 0 vmDef1 ttyDev
      else setup_complete p s 0 vmDef (- 1))"

text \<open>
  \<open>lxcSetupContainerTty\<close> returns \<open>rc\<close>, \<open>*ttymaster\<close> and \<open>*ttyName\<close>. After
  \<open>malloc\<close> the code tests \<open>NULL == ttyName\<close>, the address of the caller's pointer,
  which is never null; so when \<open>malloc\<close> fails, \<open>strcpy\<close> writes through the null
  pointer and the call does not return: \<open>None\<close>.
\<close>

definition container_tty_cleanup ::
  "platform \<Rightarrow> sys \<Rightarrow> int \<Rightarrow> int \<Rightarrow> string option \<Rightarrow>
   (int \<times> sys \<times> int \<times> string option) option" where
  "container_tty_cleanup p s rc ttymaster ttyName =
     Some (rc,
           (if rc \<noteq> 0 \<and> ttymaster \<noteq> - 1 then snd (sys_call p s (Close ttymaster)) else s),
           ttymaster, ttyName)"

definition lxcSetupContainerTty ::
  "platform \<Rightarrow> sys \<Rightarrow> string option \<Rightarrow> (int \<times> sys \<times> int \<times> string option) option" where
  "lxcSetupContainerTty p s ttyName =
     (let (opn, s1) = sys_call p s Posix_openpt;
          ttymaster = ret opn
      in if ttymaster < 0
         then container_tty_cleanup p (lxcError s1 VIR_ERR_INTERNAL_ERROR) (- 1)
                ttymaster ttyName
         else
           let (u, s2) = sys_call p s1 (Unlockpt ttymaster)
           in if ret u < 0
              then container_tty_cleanup p (lxcError s2 VIR_ERR_INTERNAL_ERROR) (- 1)
                     ttymaster ttyName
              else
                let (n, s3) = sys_call p s2 (Ptsname_r ttymaster)
                in if ret n \<noteq> 0
                   then container_tty_cleanup p (lxcError s3 VIR_ERR_INTERNAL_ERROR) (- 1)
                          ttymaster ttyName
                   else
                     let (m, s4) = sys_call p s3 (Malloc (int (length (str n)) + 1))
                     in if ret m = 0 then None
                        else container_tty_cleanup p s4 0 ttymaster (Some (str n)))"

subsection \<open>The forwarder\<close>

text \<open>The array \<open>fds\<close> as the two tests on \<open>fd1\<close> and \<open>fd2\<close> fill it.\<close>

definition forward_fds :: "int \<Rightarrow> int \<Rightarrow> int list" where
  "forward_fds fd1 fd2 = (if 0 \<le> fd1 then [fd1] else []) @ (if 0 \<le> fd2 then [fd2] else [])"

definition revents_at :: "reply \<Rightarrow> nat \<Rightarrow> int" where
  "revents_at r i = (if i < length (revents r) then revents r ! i else 0)"

text \<open>
  The \<open>for\<close> loop over the polled descriptors, given the indices still to visit. The
  result is \<open>True\<close> when the loop leaves through \<open>goto cleanup\<close>.
\<close>

fun lxcTtyForward_scan ::
  "platform \<Rightarrow> int list \<Rightarrow> reply \<Rightarrow> nat list \<Rightarrow> sys \<Rightarrow> bool \<times> sys" where
  "lxcTtyForward_scan p fds polled [] s = (False, s)"
| "lxcTtyForward_scan p fds polled (i # rest) s =
     (if revents_at polled i = 0 then lxcTtyForward_scan p fds polled rest s
      else if revents_at polled i AND POLLIN \<noteq> 0 then
        (let (rd, s1) = sys_call p s (Saferead (fds ! i))
         in if ret rd \<noteq> 1 then (True, lxcError s1 VIR_ERR_INTERNAL_ERROR)
            else if 1 < length fds then
              (let (wr, s2) = sys_call p s1 (Safewrite (fds ! (i XOR 1)) (str rd))
               in if ret wr \<noteq> 1 then (True, lxcError s2 VIR_ERR_INTERNAL_ERROR)
                  else lxcTtyForward_scan p fds polled rest s2)
            else lxcTtyForward_scan p fds polled rest s1)
      else lxcTtyForward_scan p fds polled rest s)"

text \<open>
  The \<open>while (1)\<close> loop: it is left only through \<open>goto cleanup\<close>, with \<open>rc\<close> holding
  what the last \<open>poll\<close> returned. \<open>None\<close> is the forwarder that runs for ever.
\<close>

partial_function (option) lxcTtyForward_loop ::
  "platform \<Rightarrow> int list \<Rightarrow> sys \<Rightarrow> (int \<times> sys) option" where
  "lxcTtyForward_loop p fds s =
     (case sys_call p s (Poll fds) of
        (polled, s1) \<Rightarrow>
          if ret polled \<le> 0 then
            (if ret polled = 0 \<or> errno polled = EINTR \<or> errno polled = EAGAIN
             then lxcTtyForward_loop p fds s1
             else Some (ret polled, lxcError s1 VIR_ERR_INTERNAL_ERROR))
          else
            (case lxcTtyForward_scan p fds polled [0..<length fds] s1 of
               (leave, s2) \<Rightarrow>
                 if leave then Some (ret polled, s2) else lxcTtyForward_loop p fds s2))"

definition lxcTtyForward :: "platform \<Rightarrow> sys \<Rightarrow> int \<Rightarrow> int \<Rightarrow> (int \<times> sys) option" where
  "lxcTtyForward p s fd1 fd2 =
     (let fds = forward_fds fd1 fd2
      in if length fds = 0 then Some (- 1, s) else lxcTtyForward_loop p fds s)"

subsection \<open>lxcVmStart\<close>

text \<open>
  \<open>fork\<close> returns in two processes. A reply of \<open>0\<close> is the run of the child, which
  calls the forwarder and, should that return, goes on with the rest of the function as
  the code is written; a positive reply is the run of the parent.
\<close>

definition lxcVmStart ::
  "platform \<Rightarrow> sys \<Rightarrow> lxc_driver \<Rightarrow> nat \<Rightarrow> (int \<times> sys \<times> lxc_driver) option" where
  "lxcVmStart p s driver i =
     (let vm = vms driver ! i;
          (r1, s1, vmDef1, parentTty1) = lxcSetupTtyTunnel p s (def vm);
          vm1 = vm\<lparr>def := vmDef1, parentTty := parentTty1\<rparr>
      in if r1 < 0 then Some (- 1, s1, set_vm driver i vm1)
         else
           (case lxcSetupContainerTty p s1 (containerTty vm1) of
              None \<Rightarrow> None
            | Some (r2, s2, ttymaster, ttyName) \<Rightarrow>
                let vm2 = vm1\<lparr>containerTtyFd := ttymaster, containerTty := ttyName\<rparr>
                in if r2 < 0 then Some (- 1, s2, set_vm driver i vm2)
                   else
                     let (f, s3) = sys_call p s2 Fork;
                         vm3 = vm2\<lparr>pid := ret f\<rparr>
                     in if ret f < 0
                        then Some (- 1, lxcError s3 VIR_ERR_INTERNAL_ERROR, set_vm driver i vm3)
                        else
                          (case (if ret f = 0
                                 then map_option snd
                                        (lxcTtyForward p s3 (parentTty vm3) (containerTtyFd vm3))
                                 else Some s3) of
                             None \<Rightarrow> None
                           | Some s4 \<Rightarrow>
                               let s5 = snd (sys_call p s4 (Close (parentTty vm3)));
                                   s6 = snd (sys_call p s5 (Close (containerTtyFd vm3)));
                                   (rc, s7, driver1) =
                                     lxcStartContainer p s6 (set_vm driver i vm3) i
                               in if rc = 0
                                  then Some (rc, s7,
                                         (set_vm driver1 i
                                            ((vms driver1 ! i)\<lparr>state := VIR_DOMAIN_RUNNING\<rparr>))
                                         \<lparr>ninactivevms := ninactivevms driver1 - 1,
                                          nactivevms := nactivevms driver1 + 1\<rparr>)
                                  else Some (rc, s7, driver1))))"

section \<open>The registry invariant and sample hosts\<close>

text \<open>
  The bookkeeping is reconciled when, for every record, being in state
  \<open>VIR_DOMAIN_RUNNING\<close>, being active and having a runtime id that is not negative are
  the same thing, and the two counters are the sizes of the two partitions. This is a
  property of a registry, not a function of the driver.
\<close>

definition reconciled :: "(lxc_vm \<Rightarrow> bool) \<Rightarrow> lxc_driver \<Rightarrow> bool" where
  "reconciled lxcIsActiveVM driver \<longleftrightarrow>
     list_all (\<lambda>vm. (state vm = VIR_DOMAIN_RUNNING) = lxcIsActiveVM vm
                   \<and> lxcIsActiveVM vm = (0 \<le> id' (def vm))) (vms driver)
     \<and> sint (nactivevms driver) = int (length (filter lxcIsActiveVM (vms driver)))
     \<and> sint (ninactivevms driver) =
           int (length (filter (\<lambda>vm. \<not> lxcIsActiveVM vm) (vms driver)))"

text \<open>Replies used by the sample hosts below.\<close>

definition ok :: "int \<Rightarrow> reply" where
  "ok r = \<lparr>ret = r, errno = 0, revents = [], status = 0, str = []\<rparr>"

definition failed :: "int \<Rightarrow> reply" where
  "failed e = \<lparr>ret = - 1, errno = e, revents = [], status = 0, str = []\<rparr>"

definition sys0 :: sys where
  "sys0 = \<lparr>trace = [], errors = []\<rparr>"

text \<open>
  A host whose kernel creates the namespaced child (\<open>clone\<close> returns pid 4321) but which
  has no memory left for the child stack.
\<close>

definition no_memory_host :: platform where
  "no_memory_host =
     \<lparr>getpagesize = 4096, getuid = 0, geteuid = 0,
      answer = (\<lambda>tr c. case c of Malloc n \<Rightarrow> ok 0 | Clone e f \<Rightarrow> ok 4321 | _ \<Rightarrow> ok 0)\<rparr>"

text \<open>A host, run by root, whose kernel rejects the namespace flags.\<close>

definition no_namespaces_host :: platform where
  "no_namespaces_host =
     \<lparr>getpagesize = 4096, getuid = 0, geteuid = 0,
      answer = (\<lambda>tr c. case c of Malloc n \<Rightarrow> ok 1 | Calloc \<Rightarrow> ok 1
                        | Clone e f \<Rightarrow> failed EINVAL | _ \<Rightarrow> ok 0)\<rparr>"

text \<open>A set-uid-root program started by user 1000, and root's own shell.\<close>

definition setuid_caller :: platform where
  "setuid_caller =
     \<lparr>getpagesize = 4096, getuid = 1000, geteuid = 0, answer = (\<lambda>tr c. ok 0)\<rparr>"

definition root_caller :: platform where
  "root_caller =
     \<lparr>getpagesize = 4096, getuid = 0, geteuid = 0, answer = (\<lambda>tr c. ok 0)\<rparr>"

definition no_conn :: virConnect where
  "no_conn = \<lparr>privateData = None\<rparr>"

definition lxc_uri :: xmlURI where
  "lxc_uri = \<lparr>scheme = Some ''lxc''\<rparr>"

text \<open>
  The runtime ids of the records in state \<open>VIR_DOMAIN_RUNNING\<close>, in registry order:
  what the listing is meant to produce.
\<close>

definition running_ids :: "lxc_driver \<Rightarrow> int list" where
  "running_ids driver =
     map (\<lambda>vm. id' (def vm)) (filter (\<lambda>vm. state vm = VIR_DOMAIN_RUNNING) (vms driver))"

text \<open>
  The runtime ids of the active records, in registry order: what the listing produces.
\<close>

definition active_ids :: "(lxc_vm \<Rightarrow> bool) \<Rightarrow> lxc_driver \<Rightarrow> int list" where
  "active_ids lxcIsActiveVM driver =
     map (\<lambda>vm. id' (def vm)) (filter lxcIsActiveVM (vms driver))"

text \<open>
  Modelled from the spec: \<open>lxcIsActiveVM\<close> is an inline helper of \<^verbatim>\<open>lxc_conf.h\<close>,
  which is not part of the sources at hand. The spec has the runtime id equal to the
  pid of the container's init while the container runs and \<open>- 1\<close> otherwise, and has
  the inactive records be those with id \<open>- 1\<close>; so a record is active when its runtime
  id is not \<open>- 1\<close>. The functions of the driver take the helper as an argument;
  \<open>active_by_id\<close> is what is passed to them in the runs below.
\<close>

definition active_by_id :: "lxc_vm \<Rightarrow> bool" where
  "active_by_id vm \<longleftrightarrow> id' (def vm) \<noteq> - 1"

text \<open>
  Sample records and a sample registry: two running containers around one that is shut
  off.
\<close>

definition mk_vm :: "string \<Rightarrow> string \<Rightarrow> int \<Rightarrow> virDomainState \<Rightarrow> int \<Rightarrow> lxc_vm" where
  "mk_vm nm path i st fwd =
     \<lparr>pid = fwd, state = st, parentTty = - 1, containerTtyFd = - 1, containerTty = None,
      configFile = ''/etc/lxc/'' @ nm,
      def = \<lparr>id' = i, name = nm, uuid = nm, tty = path, maxMemory = 65536\<rparr>\<rparr>"

definition sample_registry :: lxc_driver where
  "sample_registry =
     \<lparr>vms = [mk_vm ''c1'' [] 101 VIR_DOMAIN_RUNNING 201,
             mk_vm ''c2'' [] (- 1) VIR_DOMAIN_SHUTOFF (- 1),
             mk_vm ''c3'' [] 103 VIR_DOMAIN_RUNNING 203],
      nactivevms = 2, ninactivevms = 1, configDir = Some ''/etc/lxc''\<rparr>"

text \<open>The registry after the first sample container has been asked to shut down.\<close>

definition sample_registry_shutdown :: lxc_driver where
  "sample_registry_shutdown =
     \<lparr>vms = [mk_vm ''c1'' [] 101 VIR_DOMAIN_SHUTDOWN 201,
             mk_vm ''c2'' [] (- 1) VIR_DOMAIN_SHUTOFF (- 1),
             mk_vm ''c3'' [] 103 VIR_DOMAIN_RUNNING 203],
      nactivevms = 2, ninactivevms = 1, configDir = Some ''/etc/lxc''\<rparr>"

text \<open>The registry after the first sample container has been destroyed.\<close>

definition sample_registry_destroyed :: lxc_driver where
  "sample_registry_destroyed =
     \<lparr>vms = [mk_vm ''c1'' [] (- 1) VIR_DOMAIN_SHUTOFF (- 1),
             mk_vm ''c2'' [] (- 1) VIR_DOMAIN_SHUTOFF (- 1),
             mk_vm ''c3'' [] 103 VIR_DOMAIN_RUNNING 203],
      nactivevms = 1, ninactivevms = 2, configDir = Some ''/etc/lxc''\<rparr>"

definition ECHILD :: int where "ECHILD = 10"

text \<open>
  Hosts for the runs of shutdown and destroy: one where every \<open>waitpid\<close> fails with
  \<open>ECHILD\<close>; one where the first \<open>waitpid\<close> is interrupted and the later ones return
  the pid waited for; one where \<open>kill\<close> is refused with \<open>EPERM\<close>; one where the
  processes are gone already (\<open>kill\<close> fails with \<open>ESRCH\<close>, \<open>waitpid\<close> with \<open>ECHILD\<close>).
\<close>

definition unreapable_host :: platform where
  "unreapable_host =
     \<lparr>getpagesize = 4096, getuid = 0, geteuid = 0,
      answer = (\<lambda>tr c. case c of Waitpid c \<Rightarrow> failed ECHILD | _ \<Rightarrow> ok 0)\<rparr>"

definition interrupted_host :: platform where
  "interrupted_host =
     \<lparr>getpagesize = 4096, getuid = 0, geteuid = 0,
      answer = (\<lambda>tr c. case c of
                          Waitpid c \<Rightarrow> if length tr < 2 then failed EINTR else ok c
                        | _ \<Rightarrow> ok 0)\<rparr>"

definition eperm_host :: platform where
  "eperm_host =
     \<lparr>getpagesize = 4096, getuid = 0, geteuid = 0,
      answer = (\<lambda>tr c. case c of Kill c sg \<Rightarrow> failed EPERM | _ \<Rightarrow> ok 0)\<rparr>"

definition gone_host :: platform where
  "gone_host =
     \<lparr>getpagesize = 4096, getuid = 0, geteuid = 0,
      answer = (\<lambda>tr c. case c of Kill c sg \<Rightarrow> failed ESRCH | Waitpid c \<Rightarrow> failed ECHILD
                        | _ \<Rightarrow> ok 0)\<rparr>"

definition EBADF :: int where "EBADF = 9"

text \<open>
  Hosts for the runs of \<open>lxcVmStart\<close>. On the friendly host every call succeeds: the
  host-side pty opens as descriptor 5 with slave \<^verbatim>\<open>/dev/pts/3\<close>, the container-side
  pty as descriptor 6 with slave \<^verbatim>\<open>/dev/pts/4\<close>, \<open>fork\<close> returns 4242 and \<open>clone\<close>
  4321. The second host differs in \<open>fork\<close> alone, which fails with \<open>EAGAIN\<close>. The third
  is what the forwarder sees: one byte to read at the first \<open>poll\<close>, \<open>EBADF\<close> at the next.
\<close>

definition pty_reply :: "int \<Rightarrow> string \<Rightarrow> reply" where
  "pty_reply r nm = \<lparr>ret = r, errno = 0, revents = [], status = 0, str = nm\<rparr>"

definition friendly_host :: platform where
  "friendly_host =
     \<lparr>getpagesize = 4096, getuid = 0, geteuid = 0,
      answer = (\<lambda>tr c. case c of
                          Open path \<Rightarrow> ok 5
                        | Ptsname fd \<Rightarrow> pty_reply 1 ''/dev/pts/3''
                        | Posix_openpt \<Rightarrow> ok 6
                        | Ptsname_r fd \<Rightarrow> pty_reply 0 ''/dev/pts/4''
                        | Malloc n \<Rightarrow> ok 1
                        | Fork \<Rightarrow> ok 4242
                        | Clone e f \<Rightarrow> ok 4321
                        | _ \<Rightarrow> ok 0)\<rparr>"

definition fork_fails_host :: platform where
  "fork_fails_host =
     friendly_host\<lparr>answer := (\<lambda>tr c. case c of Fork \<Rightarrow> failed EAGAIN
                                         | _ \<Rightarrow> answer friendly_host tr c)\<rparr>"

definition one_byte_host :: platform where
  "one_byte_host =
     \<lparr>getpagesize = 4096, getuid = 0, geteuid = 0,
      answer = (\<lambda>tr c. case c of
                          Poll fds \<Rightarrow>
                            if tr = [] then \<lparr>ret = 1, errno = 0, revents = [POLLIN],
                                              status = 0, str = []\<rparr>
                            else failed EBADF
                        | Saferead fd \<Rightarrow> pty_reply 1 ''x''
                        | _ \<Rightarrow> ok 0)\<rparr>"

text \<open>A registry with one defined container whose definition names a host tty.\<close>

definition tty_registry :: lxc_driver where
  "tty_registry =
     \<lparr>vms = [mk_vm ''c4'' ''/dev/ptmx'' (- 1) VIR_DOMAIN_SHUTOFF (- 1)],
      nactivevms = 0, ninactivevms = 1, configDir = Some ''/etc/lxc''\<rparr>"

text \<open>
  What starting the second sample container (the one with no \<open>tty\<close>) on the friendly
  host leaves behind.
\<close>

definition started_sys :: sys where
  "started_sys =
     \<lparr>trace = [Posix_openpt, Unlockpt 6, Ptsname_r 6, Malloc 11, Fork, Close (- 1), Close 6,
               Malloc 16384, Clone LxcChild container_flags, SaveConfig],
      errors = []\<rparr>"

definition started_registry :: lxc_driver where
  "started_registry =
     \<lparr>vms = [mk_vm ''c1'' [] 101 VIR_DOMAIN_RUNNING 201,
             (mk_vm ''c2'' [] 4321 VIR_DOMAIN_RUNNING 4242)
               \<lparr>parentTty := - 1, containerTtyFd := 6, containerTty := Some ''/dev/pts/4''\<rparr>,
             mk_vm ''c3'' [] 103 VIR_DOMAIN_RUNNING 203],
      nactivevms = 3, ninactivevms = 0, configDir = Some ''/etc/lxc''\<rparr>"

text \<open>
  The host as the forked child sees it: \<open>fork\<close> answers 0 and every \<open>poll\<close> fails with
  \<open>EBADF\<close>, so that the forwarder gives up at once; and what the child's run of
  \<open>lxcVmStart\<close> on the second sample container leaves behind.
\<close>

definition child_host :: platform where
  "child_host =
     friendly_host\<lparr>answer := (\<lambda>tr c. case c of Fork \<Rightarrow> ok 0
                                         | Poll fds \<Rightarrow> failed EBADF
                                         | _ \<Rightarrow> answer friendly_host tr c)\<rparr>"

definition child_sys :: sys where
  "child_sys =
     \<lparr>trace = [Posix_openpt, Unlockpt 6, Ptsname_r 6, Malloc 11, Fork, Poll [6], Close (- 1),
               Close 6, Malloc 16384, Clone LxcChild container_flags, SaveConfig],
      errors = [VIR_ERR_INTERNAL_ERROR]\<rparr>"

definition child_registry :: lxc_driver where
  "child_registry =
     \<lparr>vms = [mk_vm ''c1'' [] 101 VIR_DOMAIN_RUNNING 201,
             (mk_vm ''c2'' [] 4321 VIR_DOMAIN_RUNNING 0)
               \<lparr>parentTty := - 1, containerTtyFd := 6, containerTty := Some ''/dev/pts/4''\<rparr>,
             mk_vm ''c3'' [] 103 VIR_DOMAIN_RUNNING 203],
      nactivevms = 3, ninactivevms = 0, configDir = Some ''/etc/lxc''\<rparr>"

text \<open>
  One turn of the forwarder that was given \<open>- 1\<close> and one valid descriptor, spelled out:
  it polls the descriptor; a poll that times out or is interrupted, or that reports no
  input, leads to the next turn; otherwise one byte is read and, if that went well, the
  next turn follows. The byte is written nowhere. That the code's loop is this is shown
  below.
\<close>

definition one_fd_turn :: "platform \<Rightarrow> sys \<Rightarrow> int \<Rightarrow> (int \<times> sys) option" where
  "one_fd_turn p t fd =
     (let polled = answer p (trace t) (Poll [fd]);
          t1 = t\<lparr>trace := trace t @ [Poll [fd]]\<rparr>
      in if ret polled \<le> 0 then
           (if ret polled = 0 \<or> errno polled = EINTR \<or> errno polled = EAGAIN
            then lxcTtyForward p t1 (- 1) fd
            else Some (ret polled, lxcError t1 VIR_ERR_INTERNAL_ERROR))
         else if revents_at polled 0 AND POLLIN = 0 then lxcTtyForward p t1 (- 1) fd
         else
           let rd = answer p (trace t1) (Saferead fd);
               t2 = t1\<lparr>trace := trace t1 @ [Saferead fd]\<rparr>
           in if ret rd \<noteq> 1 then Some (ret polled, lxcError t2 VIR_ERR_INTERNAL_ERROR)
              else lxcTtyForward p t2 (- 1) fd)"

section \<open>Capability check and probe\<close>

text \<open>
  C10. When the allocation of the child stack fails, the capability check returns
  \<open>- 1\<close> (unsupported) having made no call but the \<open>malloc\<close>: \<open>clone\<close> is never
  invoked. The probe then returns no URI. Nothing is assumed about what \<open>clone\<close> would
  have answered, so this is also what happens on a host whose kernel accepts every
  namespace flag.
\<close>

theorem lxcCheckContainerSupport_stack_alloc_failure:
  assumes "ret (answer p (trace s) (Malloc (getpagesize p * 4))) = 0"
  shows "lxcCheckContainerSupport p s =
           (- 1, s\<lparr>trace := trace s @ [Malloc (getpagesize p * 4)]\<rparr>)
         \<and> lxcProbe p s = (None, s\<lparr>trace := trace s @ [Malloc (getpagesize p * 4)]\<rparr>)"
  using assms by (simp add: lxcProbe_def lxcCheckContainerSupport_def sys_call_def)

theorem lxcCheckContainerSupport_stack_alloc_failure_witness:
  "ret (answer no_memory_host (trace sys0) (Malloc (getpagesize no_memory_host * 4))) = 0
   \<and> ret (answer no_memory_host [] (Clone LxcDummyChild container_flags)) = 4321
   \<and> lxcCheckContainerSupport no_memory_host sys0 =
       (- 1, \<lparr>trace = [Malloc 16384], errors = []\<rparr>)
   \<and> lxcProbe no_memory_host sys0 = (None, \<lparr>trace = [Malloc 16384], errors = []\<rparr>)"
proof -
  have g: "getpagesize no_memory_host = 4096"
    by (simp add: no_memory_host_def)
  have h: "ret (answer no_memory_host (trace sys0) (Malloc (getpagesize no_memory_host * 4))) = 0"
    by (simp add: no_memory_host_def ok_def)
  have c: "ret (answer no_memory_host [] (Clone LxcDummyChild container_flags)) = 4321"
    by (simp add: no_memory_host_def ok_def)
  show ?thesis
    using lxcCheckContainerSupport_stack_alloc_failure [OF h] h c by (simp add: g sys0_def)
qed

section \<open>The connection gate\<close>

text \<open>
  C7, as the code has it. \<open>lxcOpen\<close> accepts exactly when the real user id of the
  caller, the one \<open>getuid()\<close> returns, is 0, the global driver exists, and the URI is
  present with a scheme equal to \<open>lxc\<close>. In every other case the result is
  \<open>VIR_DRV_OPEN_DECLINED\<close>; \<open>VIR_DRV_OPEN_ERROR\<close> is never returned.
\<close>

theorem lxcOpen_accepts_iff:
  "lxcOpen p lxc_driver conn uri =
     (if getuid p = 0 \<and> lxc_driver \<noteq> None \<and> (\<exists>u. uri = Some u \<and> scheme u = Some ''lxc'')
      then (VIR_DRV_OPEN_SUCCESS, conn\<lparr>privateData := lxc_driver\<rparr>)
      else (VIR_DRV_OPEN_DECLINED, conn))"
  by (auto simp: lxcOpen_def split: option.splits)

theorem lxcOpen_accepts_iff_witness:
  "lxcOpen root_caller (Some zero_driver) no_conn (Some lxc_uri) =
     (VIR_DRV_OPEN_SUCCESS, \<lparr>privateData = Some zero_driver\<rparr>)
   \<and> lxcOpen root_caller None no_conn (Some lxc_uri) = (VIR_DRV_OPEN_DECLINED, no_conn)
   \<and> lxcOpen root_caller (Some zero_driver) no_conn None = (VIR_DRV_OPEN_DECLINED, no_conn)"
  using lxcOpen_accepts_iff [of root_caller "Some zero_driver" no_conn "Some lxc_uri"]
        lxcOpen_accepts_iff [of root_caller None no_conn "Some lxc_uri"]
        lxcOpen_accepts_iff [of root_caller "Some zero_driver" no_conn None]
  by (simp add: root_caller_def lxc_uri_def no_conn_def)

text \<open>
  C7 as stated speaks of the effective user id. A set-uid-root program started by user
  1000 has effective user id 0; with the driver in place and the scheme \<open>lxc\<close> the
  connection is declined all the same, because the code asks for the real user id.
\<close>

theorem lxcOpen_effective_uid_counterexample:
  "geteuid setuid_caller = 0 \<and> Some zero_driver \<noteq> None \<and> scheme lxc_uri = Some ''lxc''
   \<and> lxcOpen setuid_caller (Some zero_driver) no_conn (Some lxc_uri) =
       (VIR_DRV_OPEN_DECLINED, no_conn)"
  by (simp add: lxcOpen_def setuid_caller_def lxc_uri_def)

section \<open>Startup on a kernel without namespaces\<close>

text \<open>
  When root starts the driver and the capability check fails on \<open>clone\<close> with
  \<open>EINVAL\<close>, \<open>lxcStartup\<close> returns \<open>- 1\<close> straight after the check. The pointer
  stored from \<open>calloc\<close> is neither freed nor cleared on this path, unlike on the two
  paths that follow it.
\<close>

lemma lxcStartup_unsupported_kernel:
  assumes "getuid p = 0"
    and "ret (answer p (trace s) Calloc) \<noteq> 0"
    and "ret (answer p (trace s @ [Calloc]) (Malloc (getpagesize p * 4))) \<noteq> 0"
    and "ret (answer p (trace s @ [Calloc, Malloc (getpagesize p * 4)])
               (Clone LxcDummyChild container_flags)) < 0"
    and "errno (answer p (trace s @ [Calloc, Malloc (getpagesize p * 4)])
               (Clone LxcDummyChild container_flags)) = EINVAL"
  shows "lxcStartup lxcLoadDriverConfig lxcLoadContainerInfo p s lxc_driver =
           (- 1,
            s\<lparr>trace := trace s @ [Calloc, Malloc (getpagesize p * 4),
                                   Clone LxcDummyChild container_flags, Free]\<rparr>,
            Some zero_driver)"
  using assms
  by (simp add: lxcStartup_def lxcCheckContainerSupport_def sys_call_def Let_def)

text \<open>
  C1, evaluated on the code. Root starts the driver on a host whose \<open>clone\<close> fails with
  \<open>EINVAL\<close>. \<open>lxcStartup\<close> returns \<open>- 1\<close>, but the driver exists, zero-filled, and
  the next \<open>lxcOpen\<close> of an \<open>lxc\<close> URI succeeds instead of being declined.
\<close>

theorem lxcStartup_unsupported_kernel_keeps_driver:
  "lxcStartup lxcLoadDriverConfig lxcLoadContainerInfo no_namespaces_host sys0 None =
     (- 1,
      \<lparr>trace = [Calloc, Malloc 16384, Clone LxcDummyChild container_flags, Free], errors = []\<rparr>,
      Some zero_driver)
   \<and> lxcOpen no_namespaces_host (Some zero_driver) no_conn (Some lxc_uri) =
       (VIR_DRV_OPEN_SUCCESS, \<lparr>privateData = Some zero_driver\<rparr>)"
  by (simp add: lxcStartup_def lxcCheckContainerSupport_def sys_call_def
      no_namespaces_host_def sys0_def ok_def failed_def lxcOpen_def lxc_uri_def no_conn_def)

section \<open>Listing the running domains\<close>

lemma lxcListDomains_loop_eq:
  assumes "0 \<le> m" and "nat nids \<le> length ids"
  shows "lxcListDomains_loop isA xs ids nids m =
           Some (take (nat m) ids
                  @ take (nat (nids - m)) (map (\<lambda>vm. id' (def vm)) (filter isA xs))
                  @ drop (nat m + min (nat (nids - m)) (length (filter isA xs))) ids,
                 m + int (min (nat (nids - m)) (length (filter isA xs))))"
  using assms
proof (induction xs arbitrary: ids m)
  case Nil
  then show ?case by simp
next
  case (Cons vm rest)
  show ?case
  proof (cases "m < nids")
    case False
    then show ?thesis by simp
  next
    case True
    note lt = this
    show ?thesis
    proof (cases "isA vm")
      case False
      with lt Cons show ?thesis by simp
    next
      case True
      from lt Cons.prems have inr: "nat m < length ids" by linarith
      have len: "nat nids \<le> length (ids[nat m := id' (def vm)])"
        using Cons.prems by simp
      have m1: "0 \<le> m + 1" using Cons.prems by simp
      have k: "nat (nids - m) = Suc (nat (nids - (m + 1)))"
        using lt by linarith
      have tk: "take (Suc (nat m)) (ids[nat m := id' (def vm)]) =
                  take (nat m) ids @ [id' (def vm)]"
        using inr by (simp add: take_Suc_conv_app_nth)
      have nm: "nat (m + 1) = Suc (nat m)" using Cons.prems(1) by linarith
      show ?thesis
        using True lt inr Cons.prems(1)
        by (simp add: Cons.IH [OF m1 len] tk k nm)
    qed
  qed
qed

lemma filter_cong_set: "\<forall>x\<in>set xs. P x = Q x \<Longrightarrow> filter P xs = filter Q xs"
  by (induction xs) auto

text \<open>
  C8, as the code has it. Let the caller's array have room for \<open>nids\<close> entries. Then
  \<open>lxcListDomains\<close> writes, in registry order, the ids of the active records (those
  of which \<open>lxcIsActiveVM\<close> holds) until \<open>nids\<close> slots are filled, leaves the rest of
  the array alone, and returns the number of ids written, which is the smaller of
  \<open>nids\<close> (none if \<open>nids\<close> is negative) and the number of active records. When
  \<open>nids\<close> is below the number of active records, exactly \<open>nids\<close> entries are returned
  (none if \<open>nids\<close> is negative).
\<close>

theorem lxcListDomains_active:
  assumes "nat nids \<le> length ids"
  shows "lxcListDomains lxcIsActiveVM driver ids nids =
           Some (take (nat nids) (active_ids lxcIsActiveVM driver)
                  @ drop (min (nat nids) (length (active_ids lxcIsActiveVM driver))) ids,
                 int (min (nat nids) (length (active_ids lxcIsActiveVM driver))))
         \<and> (nids < int (length (active_ids lxcIsActiveVM driver)) \<longrightarrow>
              lxcListDomains lxcIsActiveVM driver ids nids =
                Some (take (nat nids) (active_ids lxcIsActiveVM driver) @ drop (nat nids) ids,
                      int (nat nids)))"
proof -
  have e: "lxcListDomains lxcIsActiveVM driver ids nids =
           Some (take (nat nids) (active_ids lxcIsActiveVM driver)
                  @ drop (min (nat nids) (length (active_ids lxcIsActiveVM driver))) ids,
                 int (min (nat nids) (length (active_ids lxcIsActiveVM driver))))"
    using lxcListDomains_loop_eq [of 0 nids ids lxcIsActiveVM "vms driver"] assms
    by (simp add: lxcListDomains_def active_ids_def)
  show ?thesis
    using e by (auto simp: min_def)
qed

lemma active_ids_sample_shutdown:
  "active_ids active_by_id sample_registry_shutdown = [101, 103]"
  by (simp add: active_ids_def sample_registry_shutdown_def mk_vm_def active_by_id_def)

theorem lxcListDomains_active_witness:
  "lxcListDomains active_by_id sample_registry_shutdown [0, 0, 0] 1 = Some ([101, 0, 0], 1)
   \<and> lxcListDomains active_by_id sample_registry_shutdown [0, 0, 0] 3 = Some ([101, 103, 0], 2)
   \<and> lxcListDomains active_by_id sample_registry_shutdown [0, 0, 0] (- 1) = Some ([0, 0, 0], 0)"
proof -
  have l1: "nat 1 \<le> length [0::int, 0, 0]" by simp
  have l3: "nat 3 \<le> length [0::int, 0, 0]" by simp
  have l0: "nat (- 1) \<le> length [0::int, 0, 0]" by simp
  show ?thesis
    using lxcListDomains_active [OF l1, of active_by_id sample_registry_shutdown]
          lxcListDomains_active [OF l3, of active_by_id sample_registry_shutdown]
          lxcListDomains_active [OF l0, of active_by_id sample_registry_shutdown]
    by (simp add: active_ids_sample_shutdown)
qed

text \<open>
  C8 as stated speaks of the records in state \<open>VIR_DOMAIN_RUNNING\<close>. Shutting the first
  sample container down leaves it in state \<open>VIR_DOMAIN_SHUTDOWN\<close> with its runtime id
  101, so it is still active. The only running record then has id 103, but a listing
  with one slot returns 101, and a listing with three slots returns 101 and 103.
\<close>

theorem lxcListDomains_after_shutdown_counterexample:
  "lxcDomainShutdown active_by_id gone_host sys0 sample_registry
       (virGetDomain (vms sample_registry ! 0)) =
     (0, \<lparr>trace = [Kill 101 SIGINT], errors = []\<rparr>, sample_registry_shutdown)
   \<and> state (vms sample_registry_shutdown ! 0) = VIR_DOMAIN_SHUTDOWN
   \<and> running_ids sample_registry_shutdown = [103]
   \<and> lxcListDomains active_by_id sample_registry_shutdown [0, 0, 0] 1 = Some ([101, 0, 0], 1)
   \<and> lxcListDomains active_by_id sample_registry_shutdown [0, 0, 0] 3 = Some ([101, 103, 0], 2)"
  by (simp add: lxcDomainShutdown_def lxcFindVMByID_def lxcListDomains_def running_ids_def
      sample_registry_def sample_registry_shutdown_def mk_vm_def active_by_id_def
      virGetDomain_def sys_call_def gone_host_def sys0_def failed_def set_vm_def
      ESRCH_def Let_def)

text \<open>
  Where the active records of the registry are exactly the running ones, the listing is
  the list of the running ids.
\<close>

lemma lxcListDomains_running:
  assumes "nat nids \<le> length ids"
    and "\<forall>vm\<in>set (vms driver). lxcIsActiveVM vm = (state vm = VIR_DOMAIN_RUNNING)"
  shows "lxcListDomains lxcIsActiveVM driver ids nids =
           Some (take (nat nids) (running_ids driver)
                  @ drop (min (nat nids) (length (running_ids driver))) ids,
                 int (min (nat nids) (length (running_ids driver))))"
proof -
  have "active_ids lxcIsActiveVM driver = running_ids driver"
    using filter_cong_set [OF assms(2)] by (simp add: active_ids_def running_ids_def)
  with lxcListDomains_active [OF assms(1), of lxcIsActiveVM driver] show ?thesis by simp
qed


section \<open>Lookup by runtime id\<close>

lemma lxcFindVMByID_from_None:
  "(lxcFindVMByID_from isA xs i = None) = (\<forall>vm\<in>set xs. \<not> (isA vm \<and> id' (def vm) = i))"
  by (induction xs) auto

lemma lxcFindVMByID_from_Some:
  "lxcFindVMByID_from isA xs i = Some n \<Longrightarrow>
     n < length xs \<and> isA (xs ! n) \<and> id' (def (xs ! n)) = i"
  by (induction xs arbitrary: n) (auto split: if_splits)

lemma reconciled_sample: "reconciled active_by_id sample_registry"
  by (simp add: reconciled_def sample_registry_def mk_vm_def active_by_id_def)

lemma reconciled_sample_destroyed: "reconciled active_by_id sample_registry_destroyed"
  by (simp add: reconciled_def sample_registry_destroyed_def mk_vm_def active_by_id_def)

text \<open>
  C9. Shutdown and destroy look their target up by the runtime id held in the handle.
  In a registry whose active records all have a runtime id other than \<open>- 1\<close>, a handle
  of a record that is not running (runtime id \<open>- 1\<close>) finds nothing: both operations
  report \<open>VIR_ERR_INVALID_DOMAIN\<close>, return \<open>- 1\<close>, make no system call and hand the
  driver back as it was, records and counters alike.
\<close>

theorem not_running_invalid_domain:
  assumes "\<forall>v\<in>set (vms driver). lxcIsActiveVM v \<longrightarrow> id' (def v) \<noteq> - 1"
    and "id' (def vm) = - 1"
  shows "lxcDomainShutdown lxcIsActiveVM p s driver (virGetDomain vm) =
           (- 1, lxcError s VIR_ERR_INVALID_DOMAIN, driver)
         \<and> lxcDomainDestroy lxcIsActiveVM p s driver (virGetDomain vm) =
             Some (- 1, lxcError s VIR_ERR_INVALID_DOMAIN, driver)"
proof -
  have "lxcFindVMByID lxcIsActiveVM driver (dom_id (virGetDomain vm)) = None"
    using assms by (auto simp: lxcFindVMByID_def lxcFindVMByID_from_None virGetDomain_def)
  then show ?thesis
    by (simp add: lxcDomainShutdown_def lxcDomainDestroy_def)
qed

theorem not_running_invalid_domain_witness:
  "lxcDomainShutdown active_by_id root_caller sys0 sample_registry
       (virGetDomain (mk_vm ''c2'' [] (- 1) VIR_DOMAIN_SHUTOFF (- 1))) =
     (- 1, \<lparr>trace = [], errors = [VIR_ERR_INVALID_DOMAIN]\<rparr>, sample_registry)
   \<and> lxcDomainDestroy active_by_id root_caller sys0 sample_registry
       (virGetDomain (mk_vm ''c2'' [] (- 1) VIR_DOMAIN_SHUTOFF (- 1))) =
     Some (- 1, \<lparr>trace = [], errors = [VIR_ERR_INVALID_DOMAIN]\<rparr>, sample_registry)"
proof -
  have h: "\<forall>v\<in>set (vms sample_registry). active_by_id v \<longrightarrow> id' (def v) \<noteq> - 1"
    by (simp add: active_by_id_def)
  have i: "id' (def (mk_vm ''c2'' [] (- 1) VIR_DOMAIN_SHUTOFF (- 1))) = - 1"
    by (simp add: mk_vm_def)
  show ?thesis
    using not_running_invalid_domain [OF h i, of root_caller sys0]
    by (simp add: lxcError_def sys0_def)
qed

text \<open>
  C2. In a reconciled registry, destroy called with the handle of a record in state
  \<open>VIR_DOMAIN_SHUTOFF\<close> finds no target: it reports \<open>VIR_ERR_INVALID_DOMAIN\<close>, makes no
  system call, and returns the driver unchanged, so the record's state and ids and both
  counters are what they were and the registry is reconciled as before.
\<close>

theorem destroy_shut_off_noop:
  assumes "reconciled lxcIsActiveVM driver"
    and "vm \<in> set (vms driver)"
    and "state vm = VIR_DOMAIN_SHUTOFF"
  shows "lxcDomainDestroy lxcIsActiveVM p s driver (virGetDomain vm) =
           Some (- 1, lxcError s VIR_ERR_INVALID_DOMAIN, driver)"
proof -
  have inv: "\<forall>v\<in>set (vms driver). (state v = VIR_DOMAIN_RUNNING) = lxcIsActiveVM v
               \<and> lxcIsActiveVM v = (0 \<le> id' (def v))"
    using assms(1) by (simp add: reconciled_def list_all_iff)
  from inv assms(2,3) have neg: "id' (def vm) < 0" by fastforce
  have "lxcFindVMByID lxcIsActiveVM driver (dom_id (virGetDomain vm)) = None"
    using inv neg by (fastforce simp: lxcFindVMByID_def lxcFindVMByID_from_None virGetDomain_def)
  then show ?thesis
    by (simp add: lxcDomainDestroy_def)
qed

theorem destroy_shut_off_noop_witness:
  "lxcDomainDestroy active_by_id unreapable_host sys0 sample_registry_destroyed
       (virGetDomain (mk_vm ''c1'' [] (- 1) VIR_DOMAIN_SHUTOFF (- 1))) =
     Some (- 1, \<lparr>trace = [], errors = [VIR_ERR_INVALID_DOMAIN]\<rparr>, sample_registry_destroyed)"
proof -
  have m: "mk_vm ''c1'' [] (- 1) VIR_DOMAIN_SHUTOFF (- 1) \<in> set (vms sample_registry_destroyed)"
    by (simp add: sample_registry_destroyed_def)
  have st: "state (mk_vm ''c1'' [] (- 1) VIR_DOMAIN_SHUTOFF (- 1)) = VIR_DOMAIN_SHUTOFF"
    by (simp add: mk_vm_def)
  show ?thesis
    using destroy_shut_off_noop [OF reconciled_sample_destroyed m st, of unreapable_host sys0]
    by (simp add: lxcError_def sys0_def)
qed

section \<open>Shutdown\<close>

text \<open>
  C6. For a handle that locates a record, when \<open>kill\<close> delivers the signal or fails
  with \<open>ESRCH\<close> (no such process), \<open>lxcDomainShutdown\<close> returns \<open>0\<close> having made one
  system call, \<open>kill(vm->def->id, SIGINT)\<close>, and no \<open>waitpid\<close>; it reports no error and
  sets the state of the record to \<open>VIR_DOMAIN_SHUTDOWN\<close>. The id signalled is the id of
  the handle.
\<close>

theorem lxcDomainShutdown_running:
  assumes "lxcFindVMByID lxcIsActiveVM driver (dom_id h) = Some i"
    and "0 \<le> ret (answer p (trace s) (Kill (id' (def (vms driver ! i))) SIGINT))
         \<or> errno (answer p (trace s) (Kill (id' (def (vms driver ! i))) SIGINT)) = ESRCH"
  shows "lxcDomainShutdown lxcIsActiveVM p s driver h =
           (0, s\<lparr>trace := trace s @ [Kill (id' (def (vms driver ! i))) SIGINT]\<rparr>,
            set_vm driver i ((vms driver ! i)\<lparr>state := VIR_DOMAIN_SHUTDOWN\<rparr>))
         \<and> id' (def (vms driver ! i)) = dom_id h"
  using assms lxcFindVMByID_from_Some [of lxcIsActiveVM "vms driver" "dom_id h" i]
  by (auto simp: lxcDomainShutdown_def sys_call_def Let_def lxcFindVMByID_def)

lemma sample_first: "vms sample_registry ! 0 = mk_vm ''c1'' [] 101 VIR_DOMAIN_RUNNING 201"
  by (simp add: sample_registry_def)

lemma sample_find_first:
  "lxcFindVMByID active_by_id sample_registry (dom_id (virGetDomain (vms sample_registry ! 0)))
     = Some 0"
  by (simp add: lxcFindVMByID_def sample_registry_def mk_vm_def active_by_id_def
      virGetDomain_def)

theorem lxcDomainShutdown_running_witness:
  "lxcDomainShutdown active_by_id gone_host sys0 sample_registry
       (virGetDomain (vms sample_registry ! 0)) =
     (0, \<lparr>trace = [Kill 101 SIGINT], errors = []\<rparr>,
      sample_registry\<lparr>vms := [mk_vm ''c1'' [] 101 VIR_DOMAIN_SHUTDOWN 201,
                              mk_vm ''c2'' [] (- 1) VIR_DOMAIN_SHUTOFF (- 1),
                              mk_vm ''c3'' [] 103 VIR_DOMAIN_RUNNING 203]\<rparr>)"
proof -
  have k: "0 \<le> ret (answer gone_host (trace sys0)
                     (Kill (id' (def (vms sample_registry ! 0))) SIGINT))
           \<or> errno (answer gone_host (trace sys0)
                     (Kill (id' (def (vms sample_registry ! 0))) SIGINT)) = ESRCH"
    by (simp add: gone_host_def failed_def)
  show ?thesis
    using lxcDomainShutdown_running [OF sample_find_first k]
    by (simp add: sample_first) (simp add: sample_registry_def mk_vm_def set_vm_def sys0_def)
qed

text \<open>
  The other case: a \<open>kill\<close> that fails for any reason but \<open>ESRCH\<close> is reported as an
  internal error, and the record keeps its state.
\<close>

lemma lxcDomainShutdown_kill_refused:
  assumes "lxcFindVMByID lxcIsActiveVM driver (dom_id h) = Some i"
    and "ret (answer p (trace s) (Kill (id' (def (vms driver ! i))) SIGINT)) < 0"
    and "errno (answer p (trace s) (Kill (id' (def (vms driver ! i))) SIGINT)) \<noteq> ESRCH"
  shows "lxcDomainShutdown lxcIsActiveVM p s driver h =
           (- 1,
            lxcError (s\<lparr>trace := trace s @ [Kill (id' (def (vms driver ! i))) SIGINT]\<rparr>)
              VIR_ERR_INTERNAL_ERROR,
            driver)"
  using assms by (simp add: lxcDomainShutdown_def sys_call_def Let_def)

section \<open>Destroy\<close>

text \<open>
  The wait loop returns as soon as one \<open>waitpid\<close> is not interrupted: if the reply
  after \<open>n\<close> interrupted attempts is anything but \<open>- 1\<close> with \<open>EINTR\<close>, the loop has a
  result.
\<close>

lemma waitpid_retry_settles:
  assumes "\<not> (ret (answer p (trace s @ replicate n (Waitpid c)) (Waitpid c)) = - 1
             \<and> errno (answer p (trace s @ replicate n (Waitpid c)) (Waitpid c)) = EINTR)"
  shows "\<exists>w s'. waitpid_retry p s c = Some (w, s')"
  using assms
proof (induction n arbitrary: s)
  case 0
  then show ?case
    by (subst waitpid_retry.simps) (auto simp: sys_call_def)
next
  case (Suc n)
  let ?s1 = "s\<lparr>trace := trace s @ [Waitpid c]\<rparr>"
  have "trace ?s1 @ replicate n (Waitpid c) = trace s @ replicate (Suc n) (Waitpid c)"
    by simp
  with Suc.prems have "\<exists>w s'. waitpid_retry p ?s1 c = Some (w, s')"
    using Suc.IH [of ?s1] by simp
  then show ?case
    by (subst waitpid_retry.simps) (auto simp: sys_call_def)
qed

lemma tty_error_out_fields:
  assumes "i < length (vms d)"
  shows "pid (vms (tty_error_out d i) ! i) = - 1"
    and "id' (def (vms (tty_error_out d i) ! i)) = - 1"
    and "state (vms (tty_error_out d i) ! i) = VIR_DOMAIN_SHUTOFF"
    and "nactivevms (tty_error_out d i) = nactivevms d - 1"
    and "ninactivevms (tty_error_out d i) = ninactivevms d + 1"
    and "length (vms (tty_error_out d i)) = length (vms d)"
    and "j \<noteq> i \<Longrightarrow> vms (tty_error_out d i) ! j = vms d ! j"
  using assms by (simp_all add: tty_error_out_def set_vm_def Let_def)

lemma kill_tty_result:
  "kill_tty p s d i = Some (rc, s', d') \<Longrightarrow> rc = 0 \<and> d' = tty_error_out d i"
  by (auto simp: kill_tty_def Let_def split: prod.splits if_splits option.splits)

lemma kill_tty_returns:
  assumes "\<forall>tr c. \<exists>n. \<not> (ret (answer p (tr @ replicate n (Waitpid c)) (Waitpid c)) = - 1
             \<and> errno (answer p (tr @ replicate n (Waitpid c)) (Waitpid c)) = EINTR)"
  shows "\<exists>s'. kill_tty p s d i = Some (0, s', tty_error_out d i)"
proof -
  obtain k s1 where k: "sys_call p s (Kill (pid (vms d ! i)) SIGKILL) = (k, s1)"
    by (cases "sys_call p s (Kill (pid (vms d ! i)) SIGKILL)")
  from assms obtain n where
    "\<not> (ret (answer p (trace s1 @ replicate n (Waitpid (pid (vms d ! i))))
               (Waitpid (pid (vms d ! i)))) = - 1
       \<and> errno (answer p (trace s1 @ replicate n (Waitpid (pid (vms d ! i))))
               (Waitpid (pid (vms d ! i)))) = EINTR)"
    by blast
  then obtain w s2 where "waitpid_retry p s1 (pid (vms d ! i)) = Some (w, s2)"
    using waitpid_retry_settles by blast
  with k show ?thesis
    by (auto simp: kill_tty_def Let_def)
qed

lemma lxcDomainDestroy_result:
  assumes "lxcFindVMByID lxcIsActiveVM driver (dom_id h) = Some i"
    and "0 \<le> ret (answer p (trace s) (Kill (id' (def (vms driver ! i))) SIGKILL))
         \<or> errno (answer p (trace s) (Kill (id' (def (vms driver ! i))) SIGKILL)) = ESRCH"
    and "lxcDomainDestroy lxcIsActiveVM p s driver h = Some (rc, s', driver')"
  shows "rc = 0
         \<and> driver' = tty_error_out
                        (set_vm driver i ((vms driver ! i)\<lparr>state := VIR_DOMAIN_SHUTDOWN\<rparr>)) i"
  using assms
  by (auto simp: lxcDomainDestroy_def Let_def sys_call_def
           split: prod.splits if_splits option.splits dest: kill_tty_result)

lemma lxcDomainDestroy_returns:
  assumes "lxcFindVMByID lxcIsActiveVM driver (dom_id h) = Some i"
    and "0 \<le> ret (answer p (trace s) (Kill (id' (def (vms driver ! i))) SIGKILL))
         \<or> errno (answer p (trace s) (Kill (id' (def (vms driver ! i))) SIGKILL)) = ESRCH"
    and settle: "\<forall>tr c. \<exists>n. \<not> (ret (answer p (tr @ replicate n (Waitpid c)) (Waitpid c)) = - 1
             \<and> errno (answer p (tr @ replicate n (Waitpid c)) (Waitpid c)) = EINTR)"
  shows "\<exists>s' driver'. lxcDomainDestroy lxcIsActiveVM p s driver h = Some (0, s', driver')"
proof -
  let ?c = "id' (def (vms driver ! i))"
  let ?s1 = "s\<lparr>trace := trace s @ [Kill ?c SIGKILL]\<rparr>"
  from settle obtain n where
    "\<not> (ret (answer p (trace ?s1 @ replicate n (Waitpid ?c)) (Waitpid ?c)) = - 1
       \<and> errno (answer p (trace ?s1 @ replicate n (Waitpid ?c)) (Waitpid ?c)) = EINTR)"
    by blast
  then obtain w s2 where w: "waitpid_retry p ?s1 ?c = Some (w, s2)"
    using waitpid_retry_settles [of p ?s1 n ?c] by blast
  let ?s3 = "if ret w \<noteq> ?c then lxcError s2 VIR_ERR_INTERNAL_ERROR else s2"
  let ?d1 = "set_vm driver i ((vms driver ! i)\<lparr>state := VIR_DOMAIN_SHUTDOWN\<rparr>)"
  obtain s' where k: "kill_tty p ?s3 ?d1 i = Some (0, s', tty_error_out ?d1 i)"
    using kill_tty_returns [OF settle, of ?s3 ?d1 i] by blast
  have "lxcDomainDestroy lxcIsActiveVM p s driver h = kill_tty p ?s3 ?d1 i"
    using assms(1,2) w
    by (auto simp: lxcDomainDestroy_def Let_def sys_call_def split: prod.splits)
  with k show ?thesis by simp
qed

text \<open>
  A \<open>kill\<close> of the container that fails for any reason but \<open>ESRCH\<close> ends the
  function at once: the error is reported, \<open>- 1\<close> is returned, and the driver is
  handed back as it was.
\<close>

lemma lxcDomainDestroy_kill_refused:
  assumes "lxcFindVMByID lxcIsActiveVM driver (dom_id h) = Some i"
    and "ret (answer p (trace s) (Kill (id' (def (vms driver ! i))) SIGKILL)) < 0"
    and "errno (answer p (trace s) (Kill (id' (def (vms driver ! i))) SIGKILL)) \<noteq> ESRCH"
  shows "lxcDomainDestroy lxcIsActiveVM p s driver h =
           Some (- 1,
                 lxcError (s\<lparr>trace := trace s @ [Kill (id' (def (vms driver ! i))) SIGKILL]\<rparr>)
                   VIR_ERR_INTERNAL_ERROR,
                 driver)"
  using assms by (simp add: lxcDomainDestroy_def sys_call_def Let_def)

text \<open>
  C5, as the code has it. Let the handle locate a record. If the \<open>kill\<close> of the
  container delivers \<open>SIGKILL\<close> or fails with \<open>ESRCH\<close>, then whenever
  \<open>lxcDomainDestroy\<close> returns, it returns \<open>0\<close> and the record has forwarder pid
  \<open>- 1\<close>, runtime id \<open>- 1\<close> and state \<open>VIR_DOMAIN_SHUTOFF\<close>; the record was active
  and, \<open>lxcIsActiveVM\<close> holding of no record with id \<open>- 1\<close>, is active no longer; the
  active counter is one lower and the inactive counter one higher (as 32-bit integers);
  and no other record has changed. This holds whatever the two waits and the \<open>kill\<close> of
  the forwarder report. In that case \<open>lxcDomainDestroy\<close> does return, provided no wait
  is interrupted for ever. If the \<open>kill\<close> of the container fails for another reason,
  \<open>lxcDomainDestroy\<close> returns \<open>- 1\<close> at once, with the error reported and the driver
  as it was.
\<close>

theorem lxcDomainDestroy_converges:
  assumes "lxcFindVMByID lxcIsActiveVM driver (dom_id h) = Some i"
  shows "((0 \<le> ret (answer p (trace s) (Kill (id' (def (vms driver ! i))) SIGKILL))
           \<or> errno (answer p (trace s) (Kill (id' (def (vms driver ! i))) SIGKILL)) = ESRCH) \<longrightarrow>
          (\<forall>rc s' driver'.
             lxcDomainDestroy lxcIsActiveVM p s driver h = Some (rc, s', driver') \<longrightarrow>
               rc = 0
               \<and> pid (vms driver' ! i) = - 1
               \<and> id' (def (vms driver' ! i)) = - 1
               \<and> state (vms driver' ! i) = VIR_DOMAIN_SHUTOFF
               \<and> lxcIsActiveVM (vms driver ! i)
               \<and> ((\<forall>v. lxcIsActiveVM v \<longrightarrow> id' (def v) \<noteq> - 1) \<longrightarrow>
                    \<not> lxcIsActiveVM (vms driver' ! i))
               \<and> nactivevms driver' = nactivevms driver - 1
               \<and> ninactivevms driver' = ninactivevms driver + 1
               \<and> length (vms driver') = length (vms driver)
               \<and> (\<forall>j. j \<noteq> i \<longrightarrow> vms driver' ! j = vms driver ! j))
          \<and> ((\<forall>tr c. \<exists>n.
                 \<not> (ret (answer p (tr @ replicate n (Waitpid c)) (Waitpid c)) = - 1
                    \<and> errno (answer p (tr @ replicate n (Waitpid c)) (Waitpid c)) = EINTR)) \<longrightarrow>
              (\<exists>s' driver'.
                 lxcDomainDestroy lxcIsActiveVM p s driver h = Some (0, s', driver'))))
         \<and> ((ret (answer p (trace s) (Kill (id' (def (vms driver ! i))) SIGKILL)) < 0
              \<and> errno (answer p (trace s) (Kill (id' (def (vms driver ! i))) SIGKILL)) \<noteq> ESRCH) \<longrightarrow>
             lxcDomainDestroy lxcIsActiveVM p s driver h =
               Some (- 1,
                     lxcError (s\<lparr>trace := trace s @ [Kill (id' (def (vms driver ! i))) SIGKILL]\<rparr>)
                       VIR_ERR_INTERNAL_ERROR,
                     driver))"
proof -
  let ?k = "answer p (trace s) (Kill (id' (def (vms driver ! i))) SIGKILL)"
  have f: "i < length (vms driver)" "lxcIsActiveVM (vms driver ! i)"
    using assms lxcFindVMByID_from_Some [of lxcIsActiveVM "vms driver" "dom_id h" i]
    by (simp_all add: lxcFindVMByID_def)
  let ?d1 = "set_vm driver i ((vms driver ! i)\<lparr>state := VIR_DOMAIN_SHUTDOWN\<rparr>)"
  have i1: "i < length (vms ?d1)" using f(1) by (simp add: set_vm_def)
  have part1: "rc = 0
               \<and> pid (vms driver' ! i) = - 1
               \<and> id' (def (vms driver' ! i)) = - 1
               \<and> state (vms driver' ! i) = VIR_DOMAIN_SHUTOFF
               \<and> lxcIsActiveVM (vms driver ! i)
               \<and> ((\<forall>v. lxcIsActiveVM v \<longrightarrow> id' (def v) \<noteq> - 1) \<longrightarrow>
                    \<not> lxcIsActiveVM (vms driver' ! i))
               \<and> nactivevms driver' = nactivevms driver - 1
               \<and> ninactivevms driver' = ninactivevms driver + 1
               \<and> length (vms driver') = length (vms driver)
               \<and> (\<forall>j. j \<noteq> i \<longrightarrow> vms driver' ! j = vms driver ! j)"
    if ok: "0 \<le> ret ?k \<or> errno ?k = ESRCH"
      and r: "lxcDomainDestroy lxcIsActiveVM p s driver h = Some (rc, s', driver')"
    for rc s' driver'
  proof -
    from lxcDomainDestroy_result [OF assms ok r]
    have rc: "rc = 0" and d: "driver' = tty_error_out ?d1 i" by simp_all
    have flds: "pid (vms driver' ! i) = - 1" "id' (def (vms driver' ! i)) = - 1"
      "state (vms driver' ! i) = VIR_DOMAIN_SHUTOFF"
      "nactivevms driver' = nactivevms driver - 1"
      "ninactivevms driver' = ninactivevms driver + 1"
      "length (vms driver') = length (vms driver)"
      "\<forall>j. j \<noteq> i \<longrightarrow> vms driver' ! j = vms driver ! j"
      using tty_error_out_fields [OF i1] by (simp_all add: d) (simp_all add: set_vm_def)
    have gone: "\<not> lxcIsActiveVM (vms driver' ! i)"
      if "\<forall>v. lxcIsActiveVM v \<longrightarrow> id' (def v) \<noteq> - 1"
      using that flds(2) by blast
    show ?thesis using rc flds f(2) gone by blast
  qed
  have part2: "\<exists>s' driver'. lxcDomainDestroy lxcIsActiveVM p s driver h = Some (0, s', driver')"
    if "0 \<le> ret ?k \<or> errno ?k = ESRCH"
      and "\<forall>tr c. \<exists>n.
                 \<not> (ret (answer p (tr @ replicate n (Waitpid c)) (Waitpid c)) = - 1
                    \<and> errno (answer p (tr @ replicate n (Waitpid c)) (Waitpid c)) = EINTR)"
    using lxcDomainDestroy_returns [OF assms that] .
  have part3: "lxcDomainDestroy lxcIsActiveVM p s driver h =
               Some (- 1,
                     lxcError (s\<lparr>trace := trace s @ [Kill (id' (def (vms driver ! i))) SIGKILL]\<rparr>)
                       VIR_ERR_INTERNAL_ERROR,
                     driver)"
    if "ret ?k < 0 \<and> errno ?k \<noteq> ESRCH"
    using lxcDomainDestroy_kill_refused [OF assms] that by blast
  show ?thesis
    using part1 part2 part3 by blast
qed


text \<open>
  On a host where both waits fail with \<open>ECHILD\<close>, the two failures are reported and the
  record is reconciled all the same.
\<close>

theorem lxcDomainDestroy_converges_witness:
  "lxcDomainDestroy active_by_id unreapable_host sys0 sample_registry
       (virGetDomain (vms sample_registry ! 0)) =
     Some (0,
           \<lparr>trace = [Kill 101 SIGKILL, Waitpid 101, Kill 201 SIGKILL, Waitpid 201],
            errors = [VIR_ERR_INTERNAL_ERROR, VIR_ERR_INTERNAL_ERROR]\<rparr>,
           sample_registry_destroyed)
   \<and> active_by_id (vms sample_registry ! 0)
   \<and> \<not> active_by_id (vms sample_registry_destroyed ! 0)
   \<and> sint (nactivevms sample_registry_destroyed) = 1
   \<and> sint (ninactivevms sample_registry_destroyed) = 2"
proof -
  have k: "0 \<le> ret (answer unreapable_host (trace sys0)
                     (Kill (id' (def (vms sample_registry ! 0))) SIGKILL))
           \<or> errno (answer unreapable_host (trace sys0)
                     (Kill (id' (def (vms sample_registry ! 0))) SIGKILL)) = ESRCH"
    by (simp add: unreapable_host_def ok_def)
  have settle: "\<forall>tr c. \<exists>n.
      \<not> (ret (answer unreapable_host (tr @ replicate n (Waitpid c)) (Waitpid c)) = - 1
         \<and> errno (answer unreapable_host (tr @ replicate n (Waitpid c)) (Waitpid c)) = EINTR)"
    by (simp add: unreapable_host_def failed_def ECHILD_def EINTR_def)
  have contract: "\<forall>v. active_by_id v \<longrightarrow> id' (def v) \<noteq> - 1"
    by (simp add: active_by_id_def)
  have run: "lxcDomainDestroy active_by_id unreapable_host sys0 sample_registry
       (virGetDomain (vms sample_registry ! 0)) =
     Some (0,
           \<lparr>trace = [Kill 101 SIGKILL, Waitpid 101, Kill 201 SIGKILL, Waitpid 201],
            errors = [VIR_ERR_INTERNAL_ERROR, VIR_ERR_INTERNAL_ERROR]\<rparr>,
           sample_registry_destroyed)"
    by (simp add: lxcDomainDestroy_def kill_tty_def tty_error_out_def set_vm_def
        waitpid_retry.simps lxcFindVMByID_def sample_registry_def sample_registry_destroyed_def
        mk_vm_def active_by_id_def virGetDomain_def sys_call_def unreapable_host_def sys0_def
        failed_def ok_def lxcError_def EINTR_def ECHILD_def ESRCH_def Let_def)
  have cnt: "sint (nactivevms sample_registry_destroyed) = 1"
    "sint (ninactivevms sample_registry_destroyed) = 2"
    by (simp_all add: sample_registry_destroyed_def)
  show ?thesis
    using lxcDomainDestroy_converges [OF sample_find_first, of unreapable_host sys0]
          k settle contract run cnt
    by simp
qed

text \<open>An interrupted wait is repeated, and the run ends as before, without any error.\<close>

lemma lxcDomainDestroy_interrupted_run:
  "lxcDomainDestroy active_by_id interrupted_host sys0 sample_registry
       (virGetDomain (vms sample_registry ! 0)) =
     Some (0,
           \<lparr>trace = [Kill 101 SIGKILL, Waitpid 101, Waitpid 101, Kill 201 SIGKILL, Waitpid 201],
            errors = []\<rparr>,
           sample_registry_destroyed)"
  by (simp add: lxcDomainDestroy_def kill_tty_def tty_error_out_def set_vm_def
      waitpid_retry.simps lxcFindVMByID_def sample_registry_def sample_registry_destroyed_def
      mk_vm_def active_by_id_def virGetDomain_def sys_call_def interrupted_host_def sys0_def
      failed_def ok_def lxcError_def EINTR_def ESRCH_def Let_def)

text \<open>
  C5 as stated fails when the \<open>kill\<close> of the container is refused: with \<open>EPERM\<close> the
  function returns \<open>- 1\<close> at once and the record is still running, with its runtime id
  and its forwarder pid, and the counters are untouched.
\<close>

theorem lxcDomainDestroy_kill_refused_counterexample:
  "lxcDomainDestroy active_by_id eperm_host sys0 sample_registry
       (virGetDomain (vms sample_registry ! 0)) =
     Some (- 1, \<lparr>trace = [Kill 101 SIGKILL], errors = [VIR_ERR_INTERNAL_ERROR]\<rparr>,
           sample_registry)
   \<and> state (vms sample_registry ! 0) = VIR_DOMAIN_RUNNING
   \<and> id' (def (vms sample_registry ! 0)) = 101
   \<and> pid (vms sample_registry ! 0) = 201"
  by (simp add: lxcDomainDestroy_def lxcFindVMByID_def sample_registry_def mk_vm_def
      active_by_id_def virGetDomain_def sys_call_def eperm_host_def sys0_def failed_def
      lxcError_def EPERM_def ESRCH_def)

section \<open>Starting: traces and results\<close>

text \<open>The calls made are only ever added to.\<close>

lemma scan_trace:
  "lxcTtyForward_scan p fds polled is s = (b, s') \<Longrightarrow> set (trace s) \<subseteq> set (trace s')"
proof (induction "is" arbitrary: s)
  case Nil
  then show ?case by simp
next
  case (Cons i rest)
  then show ?case
    by (fastforce simp: Let_def sys_call_def lxcError_def split: if_splits prod.splits)
qed

lemma loop_trace:
  assumes "lxcTtyForward_loop p fds s = Some y"
  shows "set (trace s) \<subseteq> set (trace (snd y))"
proof (rule lxcTtyForward_loop.raw_induct
    [where P = "\<lambda>p fds s y. set (trace s) \<subseteq> set (trace (snd y))", OF _ assms])
  fix loop :: "platform \<Rightarrow> int list \<Rightarrow> sys \<Rightarrow> (int \<times> sys) option"
  fix p fds s y
  assume IH: "\<And>a b c y. loop a b c = Some y \<Longrightarrow> set (trace c) \<subseteq> set (trace (snd y))"
  assume step: "(case sys_call p s (Poll fds) of
      (polled, s1) \<Rightarrow>
        if ret polled \<le> 0
        then if ret polled = 0 \<or> errno polled = EINTR \<or> errno polled = EAGAIN
             then loop p fds s1
             else Some (ret polled, lxcError s1 VIR_ERR_INTERNAL_ERROR)
        else case lxcTtyForward_scan p fds polled [0..<length fds] s1 of
             (leave, s2) \<Rightarrow>
               if leave then Some (ret polled, s2) else loop p fds s2) = Some y"
  let ?s1 = "s\<lparr>trace := trace s @ [Poll fds]\<rparr>"
  show "set (trace s) \<subseteq> set (trace (snd y))"
  proof (cases "ret (answer p (trace s) (Poll fds)) \<le> 0")
    case True
    show ?thesis
    proof (cases "ret (answer p (trace s) (Poll fds)) = 0
                  \<or> errno (answer p (trace s) (Poll fds)) = EINTR
                  \<or> errno (answer p (trace s) (Poll fds)) = EAGAIN")
      case again: True
      with step True have "loop p fds ?s1 = Some y" by (simp add: sys_call_def)
      from IH [OF this] show ?thesis by simp
    next
      case False
      with step True show ?thesis by (auto simp: sys_call_def lxcError_def)
    qed
  next
    case False
    obtain b s2 where sc:
      "lxcTtyForward_scan p fds (answer p (trace s) (Poll fds)) [0..<length fds] ?s1 = (b, s2)"
      by (cases "lxcTtyForward_scan p fds (answer p (trace s) (Poll fds)) [0..<length fds] ?s1")
    from scan_trace [OF sc] have g: "set (trace s) \<subseteq> set (trace s2)" by simp
    show ?thesis
    proof (cases b)
      case True
      with step False sc g show ?thesis by (auto simp: sys_call_def)
    next
      case nb: False
      with step False sc have "loop p fds s2 = Some y" by (simp add: sys_call_def)
      from IH [OF this] g show ?thesis by blast
    qed
  qed
qed

lemma lxcTtyForward_trace:
  "lxcTtyForward p s fd1 fd2 = Some y \<Longrightarrow> set (trace s) \<subseteq> set (trace (snd y))"
  by (auto simp: lxcTtyForward_def Let_def dest: loop_trace split: if_splits)


lemma lxcStartContainer_trace:
  "lxcStartContainer p s d i = (rc, s', d') \<Longrightarrow> set (trace s) \<subseteq> set (trace s')"
  by (auto simp: lxcStartContainer_def Let_def sys_call_def lxcError_def
      split: prod.splits if_splits)

lemma lxcSetupTtyTunnel_no_tty:
  "tty vmDef = [] \<Longrightarrow> lxcSetupTtyTunnel p s vmDef = (0, s, vmDef, - 1)"
  by (simp add: lxcSetupTtyTunnel_def setup_complete_def)

lemma lxcStartContainer_keeps:
  assumes "lxcStartContainer p s d i = (rc, s', d')" and "i < length (vms d)"
  shows "parentTty (vms d' ! i) = parentTty (vms d ! i)"
    and "length (vms d') = length (vms d)"
    and "set (trace s) \<subseteq> set (trace s')"
  using assms
  by (auto simp: lxcStartContainer_def Let_def set_vm_def sys_call_def lxcError_def
      split: prod.splits if_splits)

lemma lxcStartContainer_parentTty:
  "lxcStartContainer p s d i = (rc, s', d') \<Longrightarrow> i < length (vms d) \<Longrightarrow>
     parentTty (vms d' ! i) = parentTty (vms d ! i) \<and> length (vms d') = length (vms d)"
  using lxcStartContainer_keeps by blast

lemma lxcVmStart_no_tty_parentTty:
  assumes i: "i < length (vms d)"
    and no: "tty (def (vms d ! i)) = []"
    and run: "lxcVmStart p s d i = Some (rc, s', d')"
  shows "parentTty (vms d' ! i) = - 1"
  using run no i
  by (auto simp: lxcVmStart_def Let_def lxcSetupTtyTunnel_no_tty set_vm_def sys_call_def
      split: option.splits prod.splits if_splits
      dest!: lxcStartContainer_parentTty)


lemma lxcVmStart_success_forks:
  assumes "lxcVmStart p s d i = Some (rc, s', d')" and "rc = 0"
  shows "Fork \<in> set (trace s')"
  using assms
  by (auto simp: lxcVmStart_def Let_def sys_call_def
      split: option.splits prod.splits if_splits
      dest!: lxcStartContainer_trace lxcTtyForward_trace)

lemma lxcSetupContainerTty_returns:
  "\<forall>tr n. ret (answer p tr (Malloc n)) \<noteq> 0 \<Longrightarrow> \<exists>y. lxcSetupContainerTty p s nm = Some y"
  by (auto simp: lxcSetupContainerTty_def container_tty_cleanup_def Let_def sys_call_def
      split: prod.splits)

lemma lxcVmStart_parent_returns:
  assumes "\<forall>tr. ret (answer p tr Fork) \<noteq> 0"
    and "\<forall>tr n. ret (answer p tr (Malloc n)) \<noteq> 0"
  shows "\<exists>y. lxcVmStart p s d i = Some y"
proof -
  obtain r1 s1 vd fd1 where t: "lxcSetupTtyTunnel p s (def (vms d ! i)) = (r1, s1, vd, fd1)"
    by (cases "lxcSetupTtyTunnel p s (def (vms d ! i))") auto
  obtain y where c:
    "lxcSetupContainerTty p s1 (containerTty ((vms d ! i)\<lparr>def := vd, parentTty := fd1\<rparr>)) = Some y"
    using lxcSetupContainerTty_returns [OF assms(2)] by blast
  show ?thesis
    using t c assms(1)
    by (auto simp: lxcVmStart_def Let_def sys_call_def split: prod.splits)
qed

lemma lxcTtyForward_loop_polls:
  assumes "lxcTtyForward_loop p fds s = Some y"
  shows "Poll fds \<in> set (trace (snd y))"
proof -
  let ?s1 = "s\<lparr>trace := trace s @ [Poll fds]\<rparr>"
  let ?r = "answer p (trace s) (Poll fds)"
  have u: "(case sys_call p s (Poll fds) of
      (polled, s1) \<Rightarrow>
        if ret polled \<le> 0
        then if ret polled = 0 \<or> errno polled = EINTR \<or> errno polled = EAGAIN
             then lxcTtyForward_loop p fds s1
             else Some (ret polled, lxcError s1 VIR_ERR_INTERNAL_ERROR)
        else case lxcTtyForward_scan p fds polled [0..<length fds] s1 of
             (leave, s2) \<Rightarrow>
               if leave then Some (ret polled, s2) else lxcTtyForward_loop p fds s2) = Some y"
    using assms by (subst (asm) lxcTtyForward_loop.simps) simp
  obtain b s2 where sc: "lxcTtyForward_scan p fds ?r [0..<length fds] ?s1 = (b, s2)"
    by (cases "lxcTtyForward_scan p fds ?r [0..<length fds] ?s1")
  have g: "Poll fds \<in> set (trace s2)" using scan_trace [OF sc] by auto
  have h: "Poll fds \<in> set (trace ?s1)" by simp
  show ?thesis
    using u sc g h
    by (auto simp: sys_call_def lxcError_def split: if_splits dest!: loop_trace)
qed

lemma lxcTtyForward_polls:
  assumes "0 \<le> fd1 \<or> 0 \<le> fd2" and "lxcTtyForward p t fd1 fd2 = Some y"
  shows "Poll (forward_fds fd1 fd2) \<in> set (trace (snd y))"
proof -
  have "forward_fds fd1 fd2 \<noteq> []" using assms(1) by (auto simp: forward_fds_def)
  with assms(2) have "lxcTtyForward_loop p (forward_fds fd1 fd2) t = Some y"
    by (simp add: lxcTtyForward_def Let_def)
  then show ?thesis by (rule lxcTtyForward_loop_polls)
qed

lemma lxcTtyForward_one_fd:
  "0 \<le> fd \<Longrightarrow> lxcTtyForward p s (- 1) fd = lxcTtyForward_loop p [fd] s"
  by (simp add: lxcTtyForward_def forward_fds_def)

lemma lxcTtyForward_no_fd:
  "fd1 < 0 \<Longrightarrow> fd2 < 0 \<Longrightarrow> lxcTtyForward p s fd1 fd2 = Some (- 1, s)"
  by (simp add: lxcTtyForward_def forward_fds_def)

lemma lxcVmStart_failure_keeps_state:
  assumes "i < length (vms d)" and "lxcVmStart p s d i = Some (rc, s', d')" and "rc \<noteq> 0"
  shows "state (vms d' ! i) = state (vms d ! i)
         \<and> nactivevms d' = nactivevms d \<and> ninactivevms d' = ninactivevms d"
  using assms
  by (auto simp: lxcVmStart_def lxcStartContainer_def Let_def set_vm_def sys_call_def
      split: option.splits prod.splits if_splits)



section \<open>The forwarder with one descriptor\<close>

lemma lxcTtyForward_one_fd_turn:
  assumes "0 \<le> fd"
  shows "lxcTtyForward p t (- 1) fd = one_fd_turn p t fd"
proof -
  have "lxcTtyForward_loop p [fd] t = one_fd_turn p t fd"
    unfolding one_fd_turn_def lxcTtyForward_one_fd [OF assms]
    by (subst lxcTtyForward_loop.simps) (simp add: sys_call_def Let_def)
  then show ?thesis by (simp add: lxcTtyForward_one_fd [OF assms])
qed


lemma scan_one_fd_calls:
  "lxcTtyForward_scan p [fd] polled [0] t = (b, t') \<Longrightarrow>
     \<exists>ext. trace t' = trace t @ ext \<and> set ext \<subseteq> {Saferead fd}"
  by (simp add: Let_def sys_call_def lxcError_def split: if_splits) auto


lemma loop_one_fd_calls:
  assumes "lxcTtyForward_loop p fds t = Some y"
  shows "\<forall>fd. fds = [fd] \<longrightarrow>
           (\<exists>ext. trace (snd y) = trace t @ Poll [fd] # ext
                  \<and> set ext \<subseteq> {Poll [fd], Saferead fd})"
proof (rule lxcTtyForward_loop.raw_induct
    [where P = "\<lambda>p fds t y. \<forall>fd. fds = [fd] \<longrightarrow>
           (\<exists>ext. trace (snd y) = trace t @ Poll [fd] # ext
                  \<and> set ext \<subseteq> {Poll [fd], Saferead fd})", OF _ assms])
  fix loop :: "platform \<Rightarrow> int list \<Rightarrow> sys \<Rightarrow> (int \<times> sys) option"
  fix p fds t y
  assume IH: "\<And>a b c y. loop a b c = Some y \<Longrightarrow>
      \<forall>fd. b = [fd] \<longrightarrow>
           (\<exists>ext. trace (snd y) = trace c @ Poll [fd] # ext
                  \<and> set ext \<subseteq> {Poll [fd], Saferead fd})"
  assume step: "(case sys_call p t (Poll fds) of
      (polled, s1) \<Rightarrow>
        if ret polled \<le> 0
        then if ret polled = 0 \<or> errno polled = EINTR \<or> errno polled = EAGAIN
             then loop p fds s1
             else Some (ret polled, lxcError s1 VIR_ERR_INTERNAL_ERROR)
        else case lxcTtyForward_scan p fds polled [0..<length fds] s1 of
             (leave, s2) \<Rightarrow>
               if leave then Some (ret polled, s2) else loop p fds s2) = Some y"
  show "\<forall>fd. fds = [fd] \<longrightarrow>
           (\<exists>ext. trace (snd y) = trace t @ Poll [fd] # ext
                  \<and> set ext \<subseteq> {Poll [fd], Saferead fd})"
  proof (intro allI impI)
    fix fd assume fds: "fds = [fd]"
    let ?t1 = "t\<lparr>trace := trace t @ [Poll [fd]]\<rparr>"
    let ?r = "answer p (trace t) (Poll [fd])"
    show "\<exists>ext. trace (snd y) = trace t @ Poll [fd] # ext
                  \<and> set ext \<subseteq> {Poll [fd], Saferead fd}"
    proof (cases "ret ?r \<le> 0")
      case True
      show ?thesis
      proof (cases "ret ?r = 0 \<or> errno ?r = EINTR \<or> errno ?r = EAGAIN")
        case again: True
        with step True fds have "loop p [fd] ?t1 = Some y" by (simp add: sys_call_def)
        from IH [OF this] obtain ext where
          "trace (snd y) = trace ?t1 @ Poll [fd] # ext" "set ext \<subseteq> {Poll [fd], Saferead fd}"
          by blast
        then have "trace (snd y) = trace t @ Poll [fd] # (Poll [fd] # ext)
                   \<and> set (Poll [fd] # ext) \<subseteq> {Poll [fd], Saferead fd}"
          by simp
        then show ?thesis by blast
      next
        case False
        with step True fds have "trace (snd y) = trace t @ Poll [fd] # []"
          by (auto simp: sys_call_def lxcError_def)
        then show ?thesis by auto
      qed
    next
      case False
      obtain b t2 where sc: "lxcTtyForward_scan p [fd] ?r [0] ?t1 = (b, t2)"
        by (cases "lxcTtyForward_scan p [fd] ?r [0] ?t1")
      from scan_one_fd_calls [OF sc] obtain e1 where
        e1: "trace t2 = trace t @ Poll [fd] # e1" "set e1 \<subseteq> {Saferead fd}"
        by auto
      show ?thesis
      proof (cases b)
        case True
        with step False sc fds have "snd y = t2" by (auto simp: sys_call_def)
        with e1 show ?thesis by auto
      next
        case nb: False
        with step False sc fds have "loop p [fd] t2 = Some y" by (simp add: sys_call_def)
        from IH [OF this] obtain ext where
          e2: "trace (snd y) = trace t2 @ Poll [fd] # ext" "set ext \<subseteq> {Poll [fd], Saferead fd}"
          by blast
        have "trace (snd y) = trace t @ Poll [fd] # (e1 @ Poll [fd] # ext)
              \<and> set (e1 @ Poll [fd] # ext) \<subseteq> {Poll [fd], Saferead fd}"
          using e1 e2 by auto
        then show ?thesis by blast
      qed
    qed
  qed
qed

lemma lxcTtyForward_one_fd_calls:
  assumes "0 \<le> fd" and "lxcTtyForward p t (- 1) fd = Some y"
  shows "\<exists>ext. trace (snd y) = trace t @ Poll [fd] # ext
                \<and> set ext \<subseteq> {Poll [fd], Saferead fd}"
  using assms loop_one_fd_calls [of p "[fd]" t y]
  by (simp add: lxcTtyForward_one_fd)


lemma lxcSetupContainerTty_fd:
  "lxcSetupContainerTty p s nm = Some (r2, s2, fd, nm') \<Longrightarrow> \<not> r2 < 0 \<Longrightarrow> 0 \<le> fd"
  by (auto simp: lxcSetupContainerTty_def container_tty_cleanup_def Let_def
      split: prod.splits if_splits)

lemma lxcVmStart_no_tty_forks:
  assumes "tty (def (vms d ! i)) = []"
    and "lxcSetupContainerTty p s (containerTty (vms d ! i)) = Some (r2, s2, fd, nm)"
    and "\<not> r2 < 0"
    and "lxcVmStart p s d i = Some (rc, s', d')"
  shows "Fork \<in> set (trace s')"
  using assms
  by (auto simp: lxcVmStart_def Let_def sys_call_def lxcSetupTtyTunnel_no_tty lxcError_def
      split: option.splits prod.splits if_splits
      dest!: lxcStartContainer_trace lxcTtyForward_trace)

lemma lxcVmStart_child_no_tty:
  assumes no: "tty (def (vms d ! i)) = []"
    and c: "lxcSetupContainerTty p s (containerTty (vms d ! i)) = Some (r2, s2, fd, nm)"
    and r2: "\<not> r2 < 0"
    and f: "ret (answer p (trace s2) Fork) = 0"
  shows "(lxcVmStart p s d i = None) =
           (lxcTtyForward p (s2\<lparr>trace := trace s2 @ [Fork]\<rparr>) (- 1) fd = None)"
    and "lxcVmStart p s d i = Some (rc, s', d') \<Longrightarrow>
           \<exists>r s4. lxcTtyForward p (s2\<lparr>trace := trace s2 @ [Fork]\<rparr>) (- 1) fd = Some (r, s4)
                  \<and> set (trace s4) \<subseteq> set (trace s')"
proof -
  let ?fw = "lxcTtyForward p (s2\<lparr>trace := trace s2 @ [Fork]\<rparr>) (- 1) fd"
  show "(lxcVmStart p s d i = None) = (?fw = None)"
    using no c r2 f
    by (auto simp: lxcVmStart_def Let_def sys_call_def lxcSetupTtyTunnel_no_tty
        split: option.splits prod.splits if_splits)
  show "\<exists>r s4. ?fw = Some (r, s4) \<and> set (trace s4) \<subseteq> set (trace s')"
    if "lxcVmStart p s d i = Some (rc, s', d')"
    using that no c r2 f
    by (auto simp: lxcVmStart_def Let_def sys_call_def lxcSetupTtyTunnel_no_tty
        split: option.splits prod.splits if_splits
        dest!: lxcStartContainer_trace)
qed


section \<open>Starting a domain that names no host tty\<close>

text \<open>
  C4, as the code has it. For a record whose definition has an empty \<open>tty\<close>:
  \<^item> whenever \<open>lxcVmStart\<close> returns, the host-side descriptor \<open>parentTty\<close> is \<open>- 1\<close>, and
    a start that succeeds has called \<open>fork\<close>;
  \<^item> once the container-side pty is set up (descriptor \<open>fd\<close>, not negative), every run
    that returns has called \<open>fork\<close>; and in the forked child (\<open>fork\<close> answers 0) the
    function runs the forwarder on \<open>- 1\<close> and \<open>fd\<close>: it returns exactly when that
    forwarder returns, and then every call the forwarder made is in its trace;
  \<^item> the forwarder given \<open>- 1\<close> and one valid descriptor is \<open>one_fd_turn\<close>: it polls
    that descriptor, reads a byte when there is one and writes it nowhere; whenever it
    returns, it has made no call but polls and reads of that descriptor, the first a
    poll;
  \<^item> the forwarder returns at once, without polling, when both descriptors are
    negative, and whenever it returns having been given a valid descriptor, it has
    polled;
  \<^item> in the parent (\<open>fork\<close> never answers 0) with memory at hand (\<open>malloc\<close> never
    answers null), \<open>lxcVmStart\<close> does return.
\<close>

theorem lxcVmStart_no_tty:
  assumes "i < length (vms driver)" and "tty (def (vms driver ! i)) = []"
  shows "(\<forall>rc s' driver'.
            lxcVmStart p s driver i = Some (rc, s', driver') \<longrightarrow>
              parentTty (vms driver' ! i) = - 1 \<and> (rc = 0 \<longrightarrow> Fork \<in> set (trace s')))
         \<and> (\<forall>r2 s2 fd nm.
               lxcSetupContainerTty p s (containerTty (vms driver ! i)) = Some (r2, s2, fd, nm) \<longrightarrow>
               \<not> r2 < 0 \<longrightarrow>
                 0 \<le> fd
                 \<and> (\<forall>rc s' driver'.
                       lxcVmStart p s driver i = Some (rc, s', driver') \<longrightarrow>
                         Fork \<in> set (trace s'))
                 \<and> (ret (answer p (trace s2) Fork) = 0 \<longrightarrow>
                      (lxcVmStart p s driver i = None) =
                        (lxcTtyForward p (s2\<lparr>trace := trace s2 @ [Fork]\<rparr>) (- 1) fd = None)
                      \<and> (\<forall>rc s' driver'.
                            lxcVmStart p s driver i = Some (rc, s', driver') \<longrightarrow>
                              (\<exists>r s4. lxcTtyForward p (s2\<lparr>trace := trace s2 @ [Fork]\<rparr>) (- 1) fd
                                        = Some (r, s4)
                                      \<and> set (trace s4) \<subseteq> set (trace s')))))
         \<and> (\<forall>t fd. 0 \<le> fd \<longrightarrow> lxcTtyForward p t (- 1) fd = one_fd_turn p t fd)
         \<and> (\<forall>t fd y. 0 \<le> fd \<longrightarrow> lxcTtyForward p t (- 1) fd = Some y \<longrightarrow>
                (\<exists>ext. trace (snd y) = trace t @ Poll [fd] # ext
                       \<and> set ext \<subseteq> {Poll [fd], Saferead fd}))
         \<and> (\<forall>t fd1 fd2. fd1 < 0 \<longrightarrow> fd2 < 0 \<longrightarrow> lxcTtyForward p t fd1 fd2 = Some (- 1, t))
         \<and> (\<forall>t fd1 fd2 y. 0 \<le> fd1 \<or> 0 \<le> fd2 \<longrightarrow> lxcTtyForward p t fd1 fd2 = Some y \<longrightarrow>
                Poll (forward_fds fd1 fd2) \<in> set (trace (snd y)))
         \<and> ((\<forall>tr. ret (answer p tr Fork) \<noteq> 0) \<longrightarrow> (\<forall>tr n. ret (answer p tr (Malloc n)) \<noteq> 0) \<longrightarrow>
              (\<exists>y. lxcVmStart p s driver i = Some y))"
proof -
  have a: "parentTty (vms driver' ! i) = - 1 \<and> (rc = 0 \<longrightarrow> Fork \<in> set (trace s'))"
    if "lxcVmStart p s driver i = Some (rc, s', driver')" for rc s' driver'
    using lxcVmStart_no_tty_parentTty [OF assms that] lxcVmStart_success_forks [OF that]
    by simp
  have b: "0 \<le> fd
           \<and> (\<forall>rc s' driver'.
                 lxcVmStart p s driver i = Some (rc, s', driver') \<longrightarrow> Fork \<in> set (trace s'))
           \<and> (ret (answer p (trace s2) Fork) = 0 \<longrightarrow>
                (lxcVmStart p s driver i = None) =
                  (lxcTtyForward p (s2\<lparr>trace := trace s2 @ [Fork]\<rparr>) (- 1) fd = None)
                \<and> (\<forall>rc s' driver'.
                      lxcVmStart p s driver i = Some (rc, s', driver') \<longrightarrow>
                        (\<exists>r s4. lxcTtyForward p (s2\<lparr>trace := trace s2 @ [Fork]\<rparr>) (- 1) fd
                                  = Some (r, s4)
                                \<and> set (trace s4) \<subseteq> set (trace s'))))"
    if c: "lxcSetupContainerTty p s (containerTty (vms driver ! i)) = Some (r2, s2, fd, nm)"
      and r2: "\<not> r2 < 0" for r2 s2 fd nm
    using lxcSetupContainerTty_fd [OF c r2]
          lxcVmStart_no_tty_forks [OF assms(2) c r2]
          lxcVmStart_child_no_tty [OF assms(2) c r2]
    by blast
  show ?thesis
    apply (intro conjI)
    subgoal using a by blast
    subgoal using b by blast
    subgoal using lxcTtyForward_one_fd_turn by blast
    subgoal using lxcTtyForward_one_fd_calls by blast
    subgoal using lxcTtyForward_no_fd by blast
    subgoal using lxcTtyForward_polls by blast
    subgoal using lxcVmStart_parent_returns by blast
    done
qed

lemma sample_second_no_tty:
  "1 < length (vms sample_registry)" "tty (def (vms sample_registry ! 1)) = []"
  by (simp_all add: sample_registry_def mk_vm_def)

lemma lxcVmStart_sample_run:
  "lxcVmStart friendly_host sys0 sample_registry 1 = Some (0, started_sys, started_registry)"
  by (simp add: lxcVmStart_def lxcSetupTtyTunnel_def lxcPutTtyInRawMode_def setup_complete_def
      lxcSetupContainerTty_def container_tty_cleanup_def sys_call_def lxcError_def
      lxcStartContainer_def friendly_host_def sample_registry_def mk_vm_def sys0_def
      started_sys_def started_registry_def ok_def failed_def pty_reply_def set_vm_def Let_def)

lemma lxcTtyForward_one_byte_run:
  "lxcTtyForward one_byte_host sys0 (- 1) 6 =
     Some (- 1, \<lparr>trace = [Poll [6], Saferead 6, Poll [6]], errors = [VIR_ERR_INTERNAL_ERROR]\<rparr>)"
  by (simp add: lxcTtyForward_def forward_fds_def lxcTtyForward_loop.simps revents_at_def
      sys_call_def lxcError_def one_byte_host_def sys0_def POLLIN_def EBADF_def EINTR_def
      EAGAIN_def ok_def failed_def pty_reply_def Let_def)

lemma lxcVmStart_child_run:
  "lxcVmStart child_host sys0 sample_registry 1 = Some (0, child_sys, child_registry)"
  by (simp add: lxcVmStart_def lxcSetupTtyTunnel_def lxcPutTtyInRawMode_def setup_complete_def
      lxcSetupContainerTty_def container_tty_cleanup_def sys_call_def lxcError_def
      lxcStartContainer_def lxcTtyForward_def forward_fds_def lxcTtyForward_loop.simps
      child_host_def friendly_host_def sample_registry_def mk_vm_def sys0_def
      child_sys_def child_registry_def ok_def failed_def pty_reply_def set_vm_def Let_def
      EBADF_def EINTR_def EAGAIN_def)

theorem lxcVmStart_no_tty_witness:
  "lxcVmStart friendly_host sys0 sample_registry 1 = Some (0, started_sys, started_registry)
   \<and> parentTty (vms started_registry ! 1) = - 1
   \<and> Fork \<in> set (trace started_sys)
   \<and> lxcVmStart child_host sys0 sample_registry 1 = Some (0, child_sys, child_registry)
   \<and> Poll [6] \<in> set (trace child_sys)
   \<and> lxcTtyForward friendly_host sys0 (- 1) (- 1) = Some (- 1, sys0)
   \<and> lxcTtyForward one_byte_host sys0 (- 1) 6 = one_fd_turn one_byte_host sys0 6"
proof -
  have six: "(0::int) \<le> 6" by simp
  have pc: "Poll [6] \<in> set (trace child_sys)" by (simp add: child_sys_def)
  show ?thesis
    using lxcVmStart_no_tty [OF sample_second_no_tty, of friendly_host sys0]
          lxcVmStart_no_tty [OF sample_second_no_tty, of one_byte_host sys0]
          lxcVmStart_sample_run lxcVmStart_child_run pc six
    by simp
qed


text \<open>
  C4 as stated fails on both counts. The second sample container has no \<open>tty\<close>; started
  on the friendly host it gets a forwarder all the same (\<open>fork\<close> is in the trace and
  the record holds the forwarder's pid 4242). And the forwarder called with \<open>- 1\<close> and
  descriptor 6 does run: it polls descriptor 6, reads the byte and drops it, and polls
  again.
\<close>

theorem lxcVmStart_no_tty_forwarder_counterexample:
  "tty (def (vms sample_registry ! 1)) = []
   \<and> lxcVmStart friendly_host sys0 sample_registry 1 = Some (0, started_sys, started_registry)
   \<and> trace started_sys =
       [Posix_openpt, Unlockpt 6, Ptsname_r 6, Malloc 11, Fork, Close (- 1), Close 6,
        Malloc 16384, Clone LxcChild container_flags, SaveConfig]
   \<and> pid (vms started_registry ! 1) = 4242
   \<and> lxcTtyForward one_byte_host sys0 (- 1) 6 =
       Some (- 1, \<lparr>trace = [Poll [6], Saferead 6, Poll [6]],
                   errors = [VIR_ERR_INTERNAL_ERROR]\<rparr>)"
  using lxcVmStart_sample_run lxcTtyForward_one_byte_run
  by (simp add: sample_registry_def mk_vm_def started_sys_def started_registry_def)

section \<open>Starting: a fork that fails\<close>

text \<open>
  When both pty setups have gone through and \<open>fork\<close> fails, \<open>lxcVmStart\<close> reports the
  error and returns from the label \<open>cleanup\<close>, which holds no code: the trace ends with
  the \<open>fork\<close>, and the record keeps both descriptors.
\<close>

lemma lxcVmStart_fork_failure:
  assumes "lxcSetupTtyTunnel p s (def (vms d ! i)) = (r1, s1, vd, fd1)" and "\<not> r1 < 0"
    and "lxcSetupContainerTty p s1 (containerTty (vms d ! i)) = Some (r2, s2, fd2, nm)"
    and "\<not> r2 < 0"
    and "ret (answer p (trace s2) Fork) < 0"
  shows "lxcVmStart p s d i =
           Some (- 1, lxcError (s2\<lparr>trace := trace s2 @ [Fork]\<rparr>) VIR_ERR_INTERNAL_ERROR,
                 set_vm d i ((vms d ! i)\<lparr>def := vd, parentTty := fd1, containerTtyFd := fd2,
                                         containerTty := nm,
                                         pid := ret (answer p (trace s2) Fork)\<rparr>))"
  using assms by (simp add: lxcVmStart_def Let_def sys_call_def)

text \<open>
  C3, evaluated on the code. The container names the host tty \<^verbatim>\<open>/dev/ptmx\<close>; both pty
  setups succeed (descriptors 5 and 6) and \<open>fork\<close> fails with \<open>EAGAIN\<close>.
  \<open>lxcVmStart\<close> returns \<open>- 1\<close> and the record is still in the state it had, but
  neither descriptor has been closed: there is no \<open>close\<close> in the trace, and the record
  still holds 5 and 6.
\<close>

theorem lxcVmStart_fork_failure_leaks_ptys:
  "lxcVmStart fork_fails_host sys0 tty_registry 0 =
     Some (- 1,
       \<lparr>trace = [Open ''/dev/ptmx'', Grantpt 5, Unlockpt 5, Ptsname 5, Tcgetattr 5, Tcsetattr 5,
                 Posix_openpt, Unlockpt 6, Ptsname_r 6, Malloc 11, Fork],
        errors = [VIR_ERR_INTERNAL_ERROR]\<rparr>,
       tty_registry\<lparr>vms :=
          [(mk_vm ''c4'' ''/dev/pts/3'' (- 1) VIR_DOMAIN_SHUTOFF (- 1))
             \<lparr>parentTty := 5, containerTtyFd := 6, containerTty := Some ''/dev/pts/4''\<rparr>]\<rparr>)
   \<and> Close 5 \<notin> set [Open ''/dev/ptmx'', Grantpt 5, Unlockpt 5, Ptsname 5, Tcgetattr 5,
                      Tcsetattr 5, Posix_openpt, Unlockpt 6, Ptsname_r 6, Malloc 11, Fork]
   \<and> Close 6 \<notin> set [Open ''/dev/ptmx'', Grantpt 5, Unlockpt 5, Ptsname 5, Tcgetattr 5,
                      Tcsetattr 5, Posix_openpt, Unlockpt 6, Ptsname_r 6, Malloc 11, Fork]"
  by (simp add: lxcVmStart_def lxcSetupTtyTunnel_def lxcPutTtyInRawMode_def setup_complete_def
      lxcSetupContainerTty_def container_tty_cleanup_def sys_call_def lxcError_def
      fork_fails_host_def friendly_host_def tty_registry_def mk_vm_def sys0_def
      ok_def failed_def pty_reply_def set_vm_def Let_def)

end
